theory Spec2Isabelle
  imports Complex_Main "HOL-Library.Word"
begin

section \<open>Floating-point values\<close>

text \<open>
  Go's \<open>float32\<close> and \<open>float64\<close> values. The finite values are idealised as reals
  (rounding and overflow of finite arithmetic are outside the model); the special values a
  division can produce are kept, because the code tests for them: \<open>0 / 0\<close> is \<open>NaN\<close> and
  \<open>x / 0\<close> is an infinity. The conversions \<open>float32(.)\<close> and \<open>float64(.)\<close> are the
  identity of this type.
\<close>

datatype float32 = Fin real | PosInf | NegInf | NaN

text \<open>Go's \<open>a < b\<close>: false as soon as one side is \<open>NaN\<close>.\<close>

fun flt :: "float32 \<Rightarrow> float32 \<Rightarrow> bool" where
  "flt NaN _ = False"
| "flt _ NaN = False"
| "flt (Fin a) (Fin b) = (a < b)"
| "flt (Fin a) PosInf = True"
| "flt (Fin a) NegInf = False"
| "flt PosInf _ = False"
| "flt NegInf NegInf = False"
| "flt NegInf _ = True"

text \<open>Go's \<open>a > b\<close>, \<open>a <= b\<close> and \<open>a >= b\<close>.\<close>

definition fgt :: "float32 \<Rightarrow> float32 \<Rightarrow> bool" where
  "fgt a b = flt b a"

fun fle :: "float32 \<Rightarrow> float32 \<Rightarrow> bool" where
  "fle NaN _ = False"
| "fle _ NaN = False"
| "fle a b = (\<not> flt b a)"

definition fge :: "float32 \<Rightarrow> float32 \<Rightarrow> bool" where
  "fge a b = fle b a"

text \<open>Go's \<open>a != b\<close>: true as soon as one side is \<open>NaN\<close>.\<close>

fun fne :: "float32 \<Rightarrow> float32 \<Rightarrow> bool" where
  "fne NaN _ = True"
| "fne _ NaN = True"
| "fne a b = (a \<noteq> b)"

text \<open>\<open>math.IsNaN\<close>.\<close>

fun IsNaN :: "float32 \<Rightarrow> bool" where
  "IsNaN NaN = True"
| "IsNaN _ = False"

text \<open>Go's \<open>a - b\<close>.\<close>

fun fsub :: "float32 \<Rightarrow> float32 \<Rightarrow> float32" where
  "fsub NaN _ = NaN"
| "fsub _ NaN = NaN"
| "fsub (Fin a) (Fin b) = Fin (a - b)"
| "fsub (Fin a) PosInf = NegInf"
| "fsub (Fin a) NegInf = PosInf"
| "fsub PosInf PosInf = NaN"
| "fsub PosInf _ = PosInf"
| "fsub NegInf NegInf = NaN"
| "fsub NegInf _ = NegInf"

text \<open>
  Go's \<open>a / b\<close> on floats: no panic, \<open>0 / 0\<close> and \<open>Inf / Inf\<close> are \<open>NaN\<close>, a
  nonzero finite value over zero is an infinity of its sign (the zero divisor is taken as
  positive zero).
\<close>

fun fdiv :: "float32 \<Rightarrow> float32 \<Rightarrow> float32" where
  "fdiv NaN _ = NaN"
| "fdiv _ NaN = NaN"
| "fdiv (Fin a) (Fin b) =
     (if b \<noteq> 0 then Fin (a / b)
      else if a = 0 then NaN
      else if 0 < a then PosInf else NegInf)"
| "fdiv (Fin a) _ = Fin 0"
| "fdiv PosInf (Fin b) = (if 0 \<le> b then PosInf else NegInf)"
| "fdiv NegInf (Fin b) = (if 0 \<le> b then NegInf else PosInf)"
| "fdiv _ _ = NaN"

text \<open>\<open>float64(n)\<close> of an integer.\<close>

definition float_of_int :: "int \<Rightarrow> float32" where
  "float_of_int n = Fin (of_int n)"

text \<open>\<open>Duration.Seconds()\<close>: a duration is a count of nanoseconds.\<close>

definition Seconds :: "int \<Rightarrow> float32" where
  "Seconds d = Fin (of_int d / 1000000000)"

section \<open>Curves\<close>

text \<open>
  \<open>context.Context\<close>: the value stored under \<open>classCtxKey\<close>, if any, and everything
  else the context carries.
\<close>

type_synonym Classification = string

record 'a Context =
  classValue :: "Classification option"
  other :: 'a

text \<open>The \<open>Curve\<close> interface.\<close>

type_synonym 'a Curve = "'a Context \<Rightarrow> float32 \<Rightarrow> float32"

record CurveLinear =
  Upper :: float32
  Lower :: float32
  Exponent :: float32

text \<open>
  \<open>CurveLinear.Curve\<close>. The standard library's \<open>math.Pow\<close> is the parameter \<open>pow\<close>.
\<close>

definition CurveLinear_Curve ::
  "(float32 \<Rightarrow> float32 \<Rightarrow> float32) \<Rightarrow> CurveLinear \<Rightarrow> 'a Context \<Rightarrow> float32 \<Rightarrow> float32" where
  "CurveLinear_Curve pow self ctx v =
     (if flt v (Lower self) then Fin 0
      else if fgt v (Upper self) then Fin 1
      else let line = fdiv (fsub v (Lower self)) (fsub (Upper self) (Lower self))
           in if fne (Exponent self) (Fin 1) then pow line (Exponent self) else line)"

text \<open>\<open>CurveFN\<close>: the adapter calls the function it wraps.\<close>

definition CurveFN :: "('a Context \<Rightarrow> float32 \<Rightarrow> float32) \<Rightarrow> 'a Curve" where
  "CurveFN f = (\<lambda>ctx v. f ctx v)"

section \<open>Classification\<close>

text \<open>\<open>ClassificationFromContext\<close> and \<open>ClassificationToContext\<close>.\<close>

definition ClassificationFromContext :: "'a Context \<Rightarrow> Classification" where
  "ClassificationFromContext ctx = (case classValue ctx of None \<Rightarrow> [] | Some v \<Rightarrow> v)"

definition ClassificationToContext :: "'a Context \<Rightarrow> Classification \<Rightarrow> 'a Context" where
  "ClassificationToContext ctx class = ctx\<lparr>classValue := Some class\<rparr>"

section \<open>Errors, actions and the interfaces\<close>

record ErrRejection =
  Rule :: string
  Classification :: Classification
  Name :: string
  Usage :: float32
  Likelihood :: float32
  Rate :: float32

text \<open>
  An \<open>error\<close> value is an \<open>ErrRejection\<close> or an error of the action; \<open>nil\<close> is
  \<open>None\<close>. A call of an action returns an error value or panics.
\<close>

datatype error = Rejection ErrRejection | ActionError string

datatype outcome = Returned "error option" | Panic string

text \<open>
  The methods of the interfaces may read and change state the shedder does not own
  (counters, windows, caches, external systems): each is a function of the context and
  the world \<open>'s\<close> that returns its value and the world it leaves. They are taken to
  return; a panic is modelled for actions only. \<open>Fn\<close> is the action type.
\<close>

type_synonym ('a, 's) Fn = "'a Context \<Rightarrow> 's \<Rightarrow> outcome \<times> 's"

record ('a, 's) Rule =
  Rule_Name :: "'a Context \<Rightarrow> 's \<Rightarrow> string \<times> 's"
  Rule_Reject :: "'a Context \<Rightarrow> 's \<Rightarrow> bool \<times> 's"

text \<open>
  \<open>FailureProbability\<close> and \<open>RejectionRate\<close> embed \<open>Capacity\<close>. The optional
  \<open>Wrapper\<close> interface is the field \<open>Wrap\<close>: \<open>None\<close> when the type assertion
  \<open>.(Wrapper)\<close> fails. \<open>Wrap\<close> is a method like the others: it is given the action
  and the world and returns the wrapped action and the world it leaves, since a wrapper
  may set up state of its own each time it wraps.
\<close>

record ('a, 's) FailureProbability =
  FP_Name :: "'a Context \<Rightarrow> 's \<Rightarrow> string \<times> 's"
  FP_Usage :: "'a Context \<Rightarrow> 's \<Rightarrow> float32 \<times> 's"
  FP_Likelihood :: "'a Context \<Rightarrow> 's \<Rightarrow> float32 \<times> 's"
  FP_Wrap :: "(('a, 's) Fn \<Rightarrow> 's \<Rightarrow> ('a, 's) Fn \<times> 's) option"

record ('a, 's) RejectionRate =
  RR_Name :: "'a Context \<Rightarrow> 's \<Rightarrow> string \<times> 's"
  RR_Usage :: "'a Context \<Rightarrow> 's \<Rightarrow> float32 \<times> 's"
  RR_Likelihood :: "'a Context \<Rightarrow> 's \<Rightarrow> float32 \<times> 's"
  RR_Rate :: "'a Context \<Rightarrow> 's \<Rightarrow> float32 \<times> 's"
  RR_Wrap :: "(('a, 's) Fn \<Rightarrow> 's \<Rightarrow> ('a, 's) Fn \<times> 's) option"

type_synonym ('a, 's) Classifier = "'a Context \<Rightarrow> 's \<Rightarrow> Classification \<times> 's"

section \<open>The rejection rate over a curve\<close>

record ('a, 's) RejectionRateCurve =
  FailureProbability :: "('a, 's) FailureProbability"
  defaultCurve :: "'a Curve"
  classificationCurves :: "Classification \<rightharpoonup> 'a Curve"

definition NewRejectionRateCurveLinear ::
  "(float32 \<Rightarrow> float32 \<Rightarrow> float32) \<Rightarrow> ('a, 's) FailureProbability \<Rightarrow> float32 \<Rightarrow> float32 \<Rightarrow> float32
     \<Rightarrow> ('a, 's) RejectionRateCurve" where
  "NewRejectionRateCurveLinear pow probability lower upper exponent =
     \<lparr>FailureProbability = probability,
      defaultCurve = CurveLinear_Curve pow \<lparr>Upper = upper, Lower = lower, Exponent = exponent\<rparr>,
      classificationCurves = Map.empty\<rparr>"

definition NewRejectionRateCurveIdentity ::
  "('a, 's) FailureProbability \<Rightarrow> ('a, 's) RejectionRateCurve" where
  "NewRejectionRateCurveIdentity probability =
     \<lparr>FailureProbability = probability,
      defaultCurve = CurveFN (\<lambda>ctx v. v),
      classificationCurves = Map.empty\<rparr>"

definition NewRejectionRateCurveByClassification ::
  "('a, 's) FailureProbability \<Rightarrow> 'a Curve \<Rightarrow> (Classification \<rightharpoonup> 'a Curve)
     \<Rightarrow> ('a, 's) RejectionRateCurve" where
  "NewRejectionRateCurveByClassification probability dflt classes =
     \<lparr>FailureProbability = probability, defaultCurve = dflt, classificationCurves = classes\<rparr>"

text \<open>
  \<open>RejectionRateCurve.Rate\<close>: a classification without an entry in the map reads as the
  \<open>nil\<close> curve and takes the default curve.
\<close>

definition RejectionRateCurve_Rate ::
  "('a, 's) RejectionRateCurve \<Rightarrow> 'a Context \<Rightarrow> 's \<Rightarrow> float32 \<times> 's" where
  "RejectionRateCurve_Rate self ctx w =
     (let curve = (case classificationCurves self (ClassificationFromContext ctx) of
                     None \<Rightarrow> defaultCurve self
                   | Some c \<Rightarrow> c);
          (current, w1) = FP_Likelihood (FailureProbability self) ctx w
      in (curve ctx current, w1))"

definition RejectionRateCurve_Wrap ::
  "('a, 's) RejectionRateCurve \<Rightarrow> ('a, 's) Fn \<Rightarrow> 's \<Rightarrow> ('a, 's) Fn \<times> 's" where
  "RejectionRateCurve_Wrap self fn w =
     (case FP_Wrap (FailureProbability self) of Some wr \<Rightarrow> wr fn w | None \<Rightarrow> (fn, w))"

text \<open>
  A \<open>*RejectionRateCurve\<close> used as a \<open>RejectionRate\<close>: the embedded
  \<open>FailureProbability\<close> supplies \<open>Name\<close>, \<open>Usage\<close> and \<open>Likelihood\<close>.
\<close>

definition RejectionRateCurve_as_RejectionRate ::
  "('a, 's) RejectionRateCurve \<Rightarrow> ('a, 's) RejectionRate" where
  "RejectionRateCurve_as_RejectionRate self =
     \<lparr>RR_Name = FP_Name (FailureProbability self),
      RR_Usage = FP_Usage (FailureProbability self),
      RR_Likelihood = FP_Likelihood (FailureProbability self),
      RR_Rate = RejectionRateCurve_Rate self,
      RR_Wrap = Some (RejectionRateCurve_Wrap self)\<rparr>"

section \<open>The shedder\<close>

text \<open>
  The random source \<open>randFloat\<close> has a state of its own, \<open>'r\<close>: a draw returns the
  value and the state of the source after it.
\<close>

record ('a, 's, 'r) Shedder =
  randFloat :: "'r \<Rightarrow> float32 \<times> 'r"
  rejectionRates :: "('a, 's) RejectionRate list"
  rules :: "('a, 's) Rule list"
  classifier :: "('a, 's) Classifier option"

definition RuleProbabilistic :: string where
  "RuleProbabilistic = ''PROBABILISTIC''"

text \<open>The first loop of \<open>Select\<close>, over the rules.\<close>

fun Select_rules ::
  "('a, 's) Rule list \<Rightarrow> 'a Context \<Rightarrow> 's \<Rightarrow> ErrRejection option \<times> 's" where
  "Select_rules [] ctx w = (None, w)"
| "Select_rules (r # rs) ctx w =
     (let (rej, w1) = Rule_Reject r ctx w
      in if rej then
           (let (n, w2) = Rule_Name r ctx w1
            in (Some \<lparr>Rule = n, Classification = ClassificationFromContext ctx, Name = [],
                      Usage = Fin 0, Likelihood = Fin 0, Rate = Fin 0\<rparr>, w2))
         else Select_rules rs ctx w1)"

text \<open>The second loop of \<open>Select\<close>, over the rejection rates.\<close>

fun Select_rates ::
  "('r \<Rightarrow> float32 \<times> 'r) \<Rightarrow> ('a, 's) RejectionRate list \<Rightarrow> 'a Context \<Rightarrow> 's \<Rightarrow> 'r
     \<Rightarrow> ErrRejection option \<times> 's \<times> 'r" where
  "Select_rates rnd [] ctx w g = (None, w, g)"
| "Select_rates rnd (r # rs) ctx w g =
     (let (rate, w1) = RR_Rate r ctx w;
          (diceRoll, g1) = rnd g
      in if flt diceRoll rate then
           (let (n, w2) = RR_Name r ctx w1;
                (u, w3) = RR_Usage r ctx w2;
                (l, w4) = RR_Likelihood r ctx w3
            in (Some \<lparr>Rule = RuleProbabilistic, Classification = ClassificationFromContext ctx,
                      Name = n, Usage = u, Likelihood = l, Rate = rate\<rparr>, w4, g1))
         else Select_rates rnd rs ctx w1 g1)"

definition Select ::
  "('a, 's, 'r) Shedder \<Rightarrow> 'a Context \<Rightarrow> 's \<Rightarrow> 'r \<Rightarrow> ErrRejection option \<times> 's \<times> 'r" where
  "Select self ctx w g =
     (case Select_rules (rules self) ctx w of
        (Some err, w1) \<Rightarrow> (Some err, w1, g)
      | (None, w1) \<Rightarrow> Select_rates (randFloat self) (rejectionRates self) ctx w1 g)"

text \<open>
  The loop \<open>for _, rate := range self.rejectionRates\<close> of \<open>Do\<close> and \<open>WrapSelect\<close>
  that wraps the action.
\<close>

fun wrapRates ::
  "('a, 's) RejectionRate list \<Rightarrow> ('a, 's) Fn \<Rightarrow> 's \<Rightarrow> ('a, 's) Fn \<times> 's" where
  "wrapRates [] fn w = (fn, w)"
| "wrapRates (rate # rest) fn w =
     (case RR_Wrap rate of
        Some wr \<Rightarrow> (let (fn1, w1) = wr fn w in wrapRates rest fn1 w1)
      | None \<Rightarrow> wrapRates rest fn w)"

text \<open>The statement \<open>if self.classifier != nil { ctx = ... }\<close> of both.\<close>

definition classify ::
  "('a, 's, 'r) Shedder \<Rightarrow> 'a Context \<Rightarrow> 's \<Rightarrow> 'a Context \<times> 's" where
  "classify self ctx w =
     (case classifier self of
        None \<Rightarrow> (ctx, w)
      | Some c \<Rightarrow> (let (class, w1) = c ctx w in (ClassificationToContext ctx class, w1)))"

definition Do ::
  "('a, 's, 'r) Shedder \<Rightarrow> 'a Context \<Rightarrow> ('a, 's) Fn \<Rightarrow> 's \<Rightarrow> 'r \<Rightarrow> outcome \<times> 's \<times> 'r" where
  "Do self ctx fn w g =
     (let (ctx1, w1) = classify self ctx w
      in case Select self ctx1 w1 g of
           (Some err, w2, g2) \<Rightarrow> (Returned (Some (Rejection err)), w2, g2)
         | (None, w2, g2) \<Rightarrow>
             (let (fn1, w3) = wrapRates (rejectionRates self) fn w2;
                  (out, w4) = fn1 ctx1 w3
              in (out, w4, g2)))"

text \<open>The function literal that \<open>WrapSelect\<close> returns, over the wrapped action.\<close>

definition WrapSelect_closure ::
  "('a, 's, 'r) Shedder \<Rightarrow> ('a, 's) Fn \<Rightarrow> 'a Context \<Rightarrow> 's \<Rightarrow> 'r \<Rightarrow> outcome \<times> 's \<times> 'r" where
  "WrapSelect_closure self fn ctx w g =
     (let (ctx1, w1) = classify self ctx w
      in case Select self ctx1 w1 g of
           (Some err, w2, g2) \<Rightarrow> (Returned (Some (Rejection err)), w2, g2)
         | (None, w2, g2) \<Rightarrow> (let (out, w3) = fn ctx1 w2 in (out, w3, g2)))"

text \<open>
  \<open>WrapSelect\<close>: the wrapping loop runs when \<open>WrapSelect\<close> is called, in the world of
  that moment; the result is the function literal over the wrapped action.
\<close>

definition WrapSelect ::
  "('a, 's, 'r) Shedder \<Rightarrow> ('a, 's) Fn \<Rightarrow> 's
     \<Rightarrow> ('a Context \<Rightarrow> 's \<Rightarrow> 'r \<Rightarrow> outcome \<times> 's \<times> 'r) \<times> 's" where
  "WrapSelect self fn w =
     (let (fn1, w1) = wrapRates (rejectionRates self) fn w in (WrapSelect_closure self fn1, w1))"

section \<open>Describing a run of the decision\<close>

text \<open>
  \<open>passRules rs ctx w\<close> asks every rule of \<open>rs\<close> in order, each in the world the one
  before left: it is the world after the last when none rejects, and \<open>None\<close> as soon as
  one does.
\<close>

fun passRules :: "('a, 's) Rule list \<Rightarrow> 'a Context \<Rightarrow> 's \<Rightarrow> 's option" where
  "passRules [] ctx w = Some w"
| "passRules (r # rs) ctx w =
     (let (rej, w1) = Rule_Reject r ctx w in if rej then None else passRules rs ctx w1)"

text \<open>
  \<open>passRates rnd rs ctx w g\<close> reads the rate of every element of \<open>rs\<close> in order and
  draws once for each: it is the world and the random source after the last when no draw
  is below its rate, and \<open>None\<close> as soon as one is.
\<close>

fun passRates ::
  "('r \<Rightarrow> float32 \<times> 'r) \<Rightarrow> ('a, 's) RejectionRate list \<Rightarrow> 'a Context \<Rightarrow> 's \<Rightarrow> 'r
     \<Rightarrow> ('s \<times> 'r) option" where
  "passRates rnd [] ctx w g = Some (w, g)"
| "passRates rnd (r # rs) ctx w g =
     (let (rate, w1) = RR_Rate r ctx w;
          (diceRoll, g1) = rnd g
      in if flt diceRoll rate then None else passRates rnd rs ctx w1 g1)"

text \<open>The random source after \<open>n\<close> draws.\<close>

fun draws :: "('r \<Rightarrow> float32 \<times> 'r) \<Rightarrow> nat \<Rightarrow> 'r \<Rightarrow> 'r" where
  "draws rnd 0 g = g"
| "draws rnd (Suc n) g = draws rnd n (snd (rnd g))"

text \<open>A method that leaves the world as it found it.\<close>

definition readOnly :: "('c \<Rightarrow> 's \<Rightarrow> 'v \<times> 's) \<Rightarrow> bool" where
  "readOnly m = (\<forall>ctx w. snd (m ctx w) = w)"

definition readOnlyShedder :: "('a, 's, 'r) Shedder \<Rightarrow> bool" where
  "readOnlyShedder self =
     ((\<forall>r \<in> set (rules self). readOnly (Rule_Name r) \<and> readOnly (Rule_Reject r))
      \<and> (\<forall>r \<in> set (rejectionRates self).
            readOnly (RR_Name r) \<and> readOnly (RR_Usage r)
            \<and> readOnly (RR_Likelihood r) \<and> readOnly (RR_Rate r))
      \<and> (\<forall>c. classifier self = Some c \<longrightarrow> readOnly c))"

text \<open>A random source that returns only values in \<open>[0, 1)\<close>.\<close>

definition unitInterval :: "float32 \<Rightarrow> bool" where
  "unitInterval d = (fle (Fin 0) d \<and> flt d (Fin 1))"

text \<open>
  A \<open>Wrap\<close> that only builds the wrapped action: it leaves the world as it found it and
  the action it returns does not depend on the world it was called in.
\<close>

definition buildsOnly :: "(('a, 's) Fn \<Rightarrow> 's \<Rightarrow> ('a, 's) Fn \<times> 's) \<Rightarrow> bool" where
  "buildsOnly wr = (\<forall>fn w w'. snd (wr fn w) = w \<and> fst (wr fn w) = fst (wr fn w'))"

definition wrappersBuildOnly :: "('a, 's) RejectionRate list \<Rightarrow> bool" where
  "wrappersBuildOnly rs = (\<forall>r \<in> set rs. \<forall>wr. RR_Wrap r = Some wr \<longrightarrow> buildsOnly wr)"

section \<open>The implementations used by the package's tests\<close>

text \<open>
  \<open>staticRule\<close>, \<open>staticProb\<close> and \<open>staticCountingRate\<close> of the test files. The
  world of a \<open>staticCountingRate\<close> holds the field \<open>count\<close> of every such object,
  by the object's identity \<open>self\<close>.
\<close>

definition nameStatic :: string where
  "nameStatic = ''static''"

definition staticRule :: "bool \<Rightarrow> ('a, 's) Rule" where
  "staticRule reject =
     \<lparr>Rule_Name = (\<lambda>ctx w. (nameStatic, w)), Rule_Reject = (\<lambda>ctx w. (reject, w))\<rparr>"

definition staticProb :: "float32 \<Rightarrow> ('a, 's) FailureProbability" where
  "staticProb v =
     \<lparr>FP_Name = (\<lambda>ctx w. (''static'', w)), FP_Usage = (\<lambda>ctx w. (v, w)),
      FP_Likelihood = (\<lambda>ctx w. (v, w)), FP_Wrap = Some (\<lambda>fn w. (fn, w))\<rparr>"

definition staticCountingRate :: "nat \<Rightarrow> float32 \<Rightarrow> ('a, nat \<Rightarrow> int) RejectionRate" where
  "staticCountingRate self v =
     \<lparr>RR_Name = (\<lambda>ctx w. (nameStatic, w)), RR_Usage = (\<lambda>ctx w. (v, w)),
      RR_Likelihood = (\<lambda>ctx w. (v, w)), RR_Rate = (\<lambda>ctx w. (v, w)),
      RR_Wrap = Some (\<lambda>fn w. (\<lambda>ctx w'. fn ctx (w'(self := w' self + 1)), w))\<rparr>"

text \<open>
  A random source that always returns the same value; its state counts the draws made.
\<close>

definition constantRandom :: "float32 \<Rightarrow> nat \<Rightarrow> float32 \<times> nat" where
  "constantRandom v g = (v, Suc g)"

text \<open>\<open>context.Background()\<close>.\<close>

definition Background :: "unit Context" where
  "Background = \<lparr>classValue = None, other = ()\<rparr>"

section \<open>Rolling windows\<close>

text \<open>
  Modelled from the spec: the windowed metric store of the \<open>rolling\<close> library, which the
  capacities use through \<open>Append\<close> and \<open>Reduce\<close>. A window is the list of the samples
  inside it, oldest first; \<open>Append\<close> adds a sample, \<open>Reduce\<close> applies the caller's
  reduction to the samples. Samples sliding out with time and the split into buckets are
  outside the model. \<open>Count\<close> counts the samples; \<open>MinimumPoints\<close> applies a reduction
  when the window holds at least the given number of samples and returns the library's
  value for "not enough data", the parameter \<open>notEnough\<close>, below that.
\<close>

type_synonym 'v Window = "'v list"

definition NewWindow :: "'v Window" where
  "NewWindow = []"


definition Reduce :: "'v Window \<Rightarrow> ('v list \<Rightarrow> 'v) \<Rightarrow> 'v" where
  "Reduce win r = r win"

definition Count :: "int list \<Rightarrow> int" where
  "Count win = int (length win)"

definition MinimumPoints :: "int \<Rightarrow> int \<Rightarrow> (int list \<Rightarrow> int) \<Rightarrow> int list \<Rightarrow> int" where
  "MinimumPoints notEnough points r win = (if points \<le> int (length win) then r win else notEnough)"

text \<open>
  Modelled from the spec: how a window is built, "constructed with bucket count, bucket
  width, optional capacity hint" and "time-bucketed". \<open>NewPreallocatedWindow\<close> makes a
  slice of \<open>buckets\<close> buckets, each with room for \<open>bucketSize\<close> samples, and Go panics
  on a negative length or capacity of a slice; its value here is the number of buckets
  made. \<open>NewTimePolicyConcurrent\<close> keeps that number and the bucket width. To reduce,
  the policy first finds the bucket of the current instant, the clock divided by the
  bucket width, modulo the number of buckets: Go panics on a zero divisor. A panic is the
  left injection, with Go's message.
\<close>

record TimePolicy =
  numberOfBuckets :: int
  bucketSizeNano :: int

definition NewPreallocatedWindow :: "int \<Rightarrow> int \<Rightarrow> string + int" where
  "NewPreallocatedWindow buckets bucketSize =
     (if buckets < 0 then Inl ''makeslice: len out of range''
      else if 0 < buckets \<and> bucketSize < 0 then Inl ''makeslice: cap out of range''
      else Inr buckets)"

definition NewTimePolicyConcurrent :: "int \<Rightarrow> int \<Rightarrow> TimePolicy" where
  "NewTimePolicyConcurrent window bucketDuration =
     \<lparr>numberOfBuckets = window, bucketSizeNano = bucketDuration\<rparr>"

definition TimePolicy_Reduce :: "TimePolicy \<Rightarrow> 'v Window \<Rightarrow> ('v list \<Rightarrow> 'v) \<Rightarrow> string + 'v" where
  "TimePolicy_Reduce policy win r =
     (if bucketSizeNano policy = 0 \<or> numberOfBuckets policy = 0
      then Inl ''integer divide by zero''
      else Inr (Reduce win r))"

section \<open>CapacityConcurrency\<close>

record CapacityConcurrency =
  cc_name :: string
  cc_limit :: "32 word"
  current :: "32 word"

datatype OptionConcurrency = OptionConcurrencyName string

fun applyOptionConcurrency :: "OptionConcurrency \<Rightarrow> CapacityConcurrency \<Rightarrow> CapacityConcurrency" where
  "applyOptionConcurrency (OptionConcurrencyName name) cc = cc\<lparr>cc_name := name\<rparr>"

definition defaultNameConcurrency :: string where
  "defaultNameConcurrency = ''CONCURRENCY''"

definition NewCapacityConcurrency :: "32 word \<Rightarrow> OptionConcurrency list \<Rightarrow> CapacityConcurrency" where
  "NewCapacityConcurrency limit options =
     fold applyOptionConcurrency options
       \<lparr>cc_name = defaultNameConcurrency, cc_limit = limit, current = 0\<rparr>"

definition CapacityConcurrency_Add :: "32 word \<Rightarrow> CapacityConcurrency \<Rightarrow> CapacityConcurrency" where
  "CapacityConcurrency_Add n self = self\<lparr>current := current self + n\<rparr>"

definition CapacityConcurrency_Done :: "32 word \<Rightarrow> CapacityConcurrency \<Rightarrow> CapacityConcurrency" where
  "CapacityConcurrency_Done n self = self\<lparr>current := current self + (- n)\<rparr>"

definition CapacityConcurrency_Usage :: "CapacityConcurrency \<Rightarrow> 'a Context \<Rightarrow> float32" where
  "CapacityConcurrency_Usage self ctx =
     fdiv (float_of_int (sint (current self))) (float_of_int (sint (cc_limit self)))"

section \<open>CapacityErrorRate\<close>

text \<open>
  A window of the source is two fields here: its samples (\<open>invocations\<close>, \<open>errors\<close>)
  and the policy it was built with.
\<close>

record CapacityErrorRate =
  er_name :: string
  invocations :: "int Window"
  invocationsPolicy :: TimePolicy
  errors :: "int Window"
  errorsPolicy :: TimePolicy
  er_buckets :: int
  er_bucketDuration :: int
  er_bucketSizeHint :: int
  er_minimumPoints :: int
  attemptReducer :: "int list \<Rightarrow> int"
  errReducer :: "int list \<Rightarrow> int"

datatype OptionErrorRate =
    OptionErrorRateWindowBuckets int
  | OptionErrorRateBucketDuration int
  | OptionErrorRateBucketSizeHint int
  | OptionErrorRateMinimumPoints int
  | OptionErrorRateName string

fun applyOptionErrorRate :: "OptionErrorRate \<Rightarrow> CapacityErrorRate \<Rightarrow> CapacityErrorRate" where
  "applyOptionErrorRate (OptionErrorRateWindowBuckets n) cer = cer\<lparr>er_buckets := n\<rparr>"
| "applyOptionErrorRate (OptionErrorRateBucketDuration d) cer = cer\<lparr>er_bucketDuration := d\<rparr>"
| "applyOptionErrorRate (OptionErrorRateBucketSizeHint n) cer = cer\<lparr>er_bucketSizeHint := n\<rparr>"
| "applyOptionErrorRate (OptionErrorRateMinimumPoints n) cer = cer\<lparr>er_minimumPoints := n\<rparr>"
| "applyOptionErrorRate (OptionErrorRateName name) cer = cer\<lparr>er_name := name\<rparr>"

definition defaultNameErrorRate :: string where
  "defaultNameErrorRate = ''ERROR RATE''"

text \<open>Durations are counts of nanoseconds.\<close>

definition Millisecond :: int where
  "Millisecond = 1000000"

text \<open>
  \<open>NewCapacityErrorRate\<close>. The windows and the reducers are set after the options have
  run; before that they hold Go's zero values, which no option reads. Building a window
  may panic, and then there is no capacity.
\<close>

definition NewCapacityErrorRate :: "int \<Rightarrow> OptionErrorRate list \<Rightarrow> string + CapacityErrorRate" where
  "NewCapacityErrorRate notEnough options =
     (let c = fold applyOptionErrorRate options
                \<lparr>er_name = defaultNameErrorRate,
                 invocations = NewWindow,
                 invocationsPolicy = \<lparr>numberOfBuckets = 0, bucketSizeNano = 0\<rparr>,
                 errors = NewWindow,
                 errorsPolicy = \<lparr>numberOfBuckets = 0, bucketSizeNano = 0\<rparr>,
                 er_buckets = 100, er_bucketDuration = 10 * Millisecond, er_bucketSizeHint = 0,
                 er_minimumPoints = 0, attemptReducer = Count, errReducer = Count\<rparr>
      in case NewPreallocatedWindow (er_buckets c) (er_bucketSizeHint c) of
           Inl p \<Rightarrow> Inl p
         | Inr w \<Rightarrow>
             (case NewPreallocatedWindow (er_buckets c) (er_bucketSizeHint c) of
                Inl p \<Rightarrow> Inl p
              | Inr w' \<Rightarrow>
                  Inr (c\<lparr>invocations := NewWindow,
                         invocationsPolicy := NewTimePolicyConcurrent w (er_bucketDuration c),
                         errors := NewWindow,
                         errorsPolicy := NewTimePolicyConcurrent w' (er_bucketDuration c),
                         attemptReducer :=
                           (if 0 < er_minimumPoints c
                            then MinimumPoints notEnough (er_minimumPoints c) Count
                            else Count),
                         errReducer := Count\<rparr>)))"

text \<open>\<open>CapacityErrorRate.Usage\<close>: the usage, or the panic of a \<open>Reduce\<close>.\<close>

definition CapacityErrorRate_Usage :: "CapacityErrorRate \<Rightarrow> 'a Context \<Rightarrow> string + float32" where
  "CapacityErrorRate_Usage self ctx =
     (case TimePolicy_Reduce (invocationsPolicy self) (invocations self) (attemptReducer self) of
        Inl p \<Rightarrow> Inl p
      | Inr attempts \<Rightarrow>
          if attempts = 0 then Inr (Fin 0)
          else (case TimePolicy_Reduce (errorsPolicy self) (errors self) (errReducer self) of
                  Inl p \<Rightarrow> Inl p
                | Inr errs \<Rightarrow>
                    (let v = fdiv (float_of_int errs) (float_of_int attempts)
                     in Inr (if IsNaN v then Fin 0 else v))))"


section \<open>CapacityLandingRate\<close>

record CapacityLandingRate =
  lr_name :: string
  lr_invocations :: "int Window"
  lr_invocationsPolicy :: TimePolicy
  lr_limit :: int
  lr_buckets :: int
  lr_bucketDuration :: int
  lr_bucketSizeHint :: int

datatype OptionLandingRate =
    OptionLandingRateWindowBuckets int
  | OptionLandingRateBucketDuration int
  | OptionLandingRateBucketSizeHint int
  | OptionLandingrateName string

fun applyOptionLandingRate :: "OptionLandingRate \<Rightarrow> CapacityLandingRate \<Rightarrow> CapacityLandingRate" where
  "applyOptionLandingRate (OptionLandingRateWindowBuckets n) clr = clr\<lparr>lr_buckets := n\<rparr>"
| "applyOptionLandingRate (OptionLandingRateBucketDuration d) clr = clr\<lparr>lr_bucketDuration := d\<rparr>"
| "applyOptionLandingRate (OptionLandingRateBucketSizeHint n) clr = clr\<lparr>lr_bucketSizeHint := n\<rparr>"
| "applyOptionLandingRate (OptionLandingrateName name) clr = clr\<lparr>lr_name := name\<rparr>"

definition defaultNameLandingRate :: string where
  "defaultNameLandingRate = ''LANDING RATE''"

definition NewCapacityLandingRate ::
  "int \<Rightarrow> OptionLandingRate list \<Rightarrow> string + CapacityLandingRate" where
  "NewCapacityLandingRate limit options =
     (let c = fold applyOptionLandingRate options
                \<lparr>lr_name = defaultNameLandingRate, lr_invocations = NewWindow,
                 lr_invocationsPolicy = \<lparr>numberOfBuckets = 0, bucketSizeNano = 0\<rparr>,
                 lr_limit = limit,
                 lr_buckets = 100, lr_bucketDuration = 10 * Millisecond, lr_bucketSizeHint = 0\<rparr>
      in case NewPreallocatedWindow (lr_buckets c) (lr_bucketSizeHint c) of
           Inl p \<Rightarrow> Inl p
         | Inr w \<Rightarrow>
             Inr (c\<lparr>lr_invocations := NewWindow,
                    lr_invocationsPolicy := NewTimePolicyConcurrent w (lr_bucketDuration c)\<rparr>))"

definition CapacityLandingRate_Usage :: "CapacityLandingRate \<Rightarrow> 'a Context \<Rightarrow> string + float32" where
  "CapacityLandingRate_Usage self ctx =
     (case TimePolicy_Reduce (lr_invocationsPolicy self) (lr_invocations self) Count of
        Inl p \<Rightarrow> Inl p
      | Inr tot \<Rightarrow> Inr (fdiv (float_of_int tot) (float_of_int (lr_limit self))))"

section \<open>CapacityLatency\<close>

record CapacityLatency =
  lat_name :: string
  window :: "int Window"
  windowPolicy :: TimePolicy
  lat_limit :: int
  lat_buckets :: int
  lat_bucketDuration :: int
  lat_bucketSizeHint :: int
  lat_minimumPoints :: int
  reduction :: "int list \<Rightarrow> int"
  measurePanics :: bool

datatype OptionLatency =
    OptionLatencyReduction "int list \<Rightarrow> int"
  | OptionLatencyMeasurePanics bool
  | OptionLatencyWindowBuckets int
  | OptionLatencyBucketDuration int
  | OptionLatencyBucketSizeHint int
  | OptionLatencyMinimumPoints int
  | OptionLatencyName string

fun applyOptionLatency :: "OptionLatency \<Rightarrow> CapacityLatency \<Rightarrow> CapacityLatency" where
  "applyOptionLatency (OptionLatencyReduction r) cl = cl\<lparr>reduction := r\<rparr>"
| "applyOptionLatency (OptionLatencyMeasurePanics v) cl = cl\<lparr>measurePanics := v\<rparr>"
| "applyOptionLatency (OptionLatencyWindowBuckets n) cl = cl\<lparr>lat_buckets := n\<rparr>"
| "applyOptionLatency (OptionLatencyBucketDuration d) cl = cl\<lparr>lat_bucketDuration := d\<rparr>"
| "applyOptionLatency (OptionLatencyBucketSizeHint n) cl = cl\<lparr>lat_bucketSizeHint := n\<rparr>"
| "applyOptionLatency (OptionLatencyMinimumPoints n) cl = cl\<lparr>lat_minimumPoints := n\<rparr>"
| "applyOptionLatency (OptionLatencyName name) cl = cl\<lparr>lat_name := name\<rparr>"

definition defaultNameLatency :: string where
  "defaultNameLatency = ''LATENCY''"

text \<open>
  \<open>NewCapacityLatency\<close>. The default reduction \<open>rolling.Avg\<close> of the library is the
  parameter \<open>Avg\<close>.
\<close>

definition NewCapacityLatency ::
  "(int list \<Rightarrow> int) \<Rightarrow> int \<Rightarrow> OptionLatency list \<Rightarrow> string + CapacityLatency" where
  "NewCapacityLatency Avg limit options =
     (let c = fold applyOptionLatency options
                \<lparr>lat_name = defaultNameLatency, window = NewWindow,
                 windowPolicy = \<lparr>numberOfBuckets = 0, bucketSizeNano = 0\<rparr>,
                 lat_limit = limit,
                 lat_buckets = 100, lat_bucketDuration = 10 * Millisecond, lat_bucketSizeHint = 0,
                 lat_minimumPoints = 0, reduction = Avg, measurePanics = False\<rparr>
      in case NewPreallocatedWindow (lat_buckets c) (lat_bucketSizeHint c) of
           Inl p \<Rightarrow> Inl p
         | Inr w \<Rightarrow>
             Inr (c\<lparr>window := NewWindow,
                    windowPolicy := NewTimePolicyConcurrent w (lat_bucketDuration c)\<rparr>))"

definition CapacityLatency_Usage :: "CapacityLatency \<Rightarrow> 'a Context \<Rightarrow> string + float32" where
  "CapacityLatency_Usage self ctx =
     (case TimePolicy_Reduce (windowPolicy self) (window self) (reduction self) of
        Inl p \<Rightarrow> Inl p
      | Inr v \<Rightarrow> Inr (fdiv (Seconds v) (Seconds (lat_limit self))))"

section \<open>CapacityThrottle\<close>

text \<open>The \<open>Capacity\<close> interface, over a world \<open>'w\<close> that also holds the clock.\<close>

record ('a, 'w) Capacity =
  Cap_Name :: "'a Context \<Rightarrow> 'w \<Rightarrow> string \<times> 'w"
  Cap_Usage :: "'a Context \<Rightarrow> 'w \<Rightarrow> float32 \<times> 'w"

text \<open>
  A \<open>time.Time\<close> is a count of nanoseconds since the Unix epoch, the zero \<open>Time\<close> is
  the first instant of year 1, and a \<open>Duration\<close> is a 64-bit count of nanoseconds:
  \<open>Time.Sub\<close> saturates at its ends. \<open>time.Now\<close> reads the clock of the world; it is
  the parameter \<open>Now\<close>, and \<open>time.Since(t)\<close> is \<open>Now().Sub(t)\<close>.
\<close>

definition zeroTime :: int where
  "zeroTime = - 62135596800 * 1000000000"

definition minDuration :: int where
  "minDuration = - (2 ^ 63)"

definition maxDuration :: int where
  "maxDuration = 2 ^ 63 - 1"

definition Time_Sub :: "int \<Rightarrow> int \<Rightarrow> int" where
  "Time_Sub t u = (if t - u < minDuration then minDuration
                   else if maxDuration < t - u then maxDuration else t - u)"

definition time_Since :: "('w \<Rightarrow> int) \<Rightarrow> 'w \<Rightarrow> int \<Rightarrow> int" where
  "time_Since Now w t = Time_Sub (Now w) t"

record ('a, 'w) CapacityThrottle =
  Capacity :: "('a, 'w) Capacity"
  duration :: int
  last :: int
  cache :: float32
  since :: "'w \<Rightarrow> int \<Rightarrow> int"

definition NewCapacityThrottle ::
  "('w \<Rightarrow> int) \<Rightarrow> ('a, 'w) Capacity \<Rightarrow> int \<Rightarrow> ('a, 'w) CapacityThrottle" where
  "NewCapacityThrottle Now wrapped d =
     \<lparr>Capacity = wrapped, duration = d, last = zeroTime, cache = Fin 0, since = time_Since Now\<rparr>"

text \<open>
  \<open>CapacityThrottle.Usage\<close>, the body between \<open>Lock\<close> and \<open>Unlock\<close>: the value, the
  throttle and the world after the call. The wrapped \<open>Usage\<close> may take time, which shows
  in the clock of the world it leaves.
\<close>

definition CapacityThrottle_Usage ::
  "('w \<Rightarrow> int) \<Rightarrow> ('a, 'w) CapacityThrottle \<Rightarrow> 'a Context \<Rightarrow> 'w
     \<Rightarrow> float32 \<times> ('a, 'w) CapacityThrottle \<times> 'w" where
  "CapacityThrottle_Usage Now self ctx w =
     (if duration self \<le> since self w (last self) then
        (let (v, w1) = Cap_Usage (Capacity self) ctx w;
             self1 = self\<lparr>cache := v\<rparr>;
             self2 = self1\<lparr>last := Now w1\<rparr>
         in (cache self2, self2, w1))
      else (cache self, self, w))"

text \<open>
  A capacity for examples: the world is the clock and the level of the resource; reading
  the usage takes \<open>latency\<close> nanoseconds and returns the level.
\<close>

definition meteredCapacity :: "int \<Rightarrow> ('a, int \<times> int) Capacity" where
  "meteredCapacity latency =
     \<lparr>Cap_Name = (\<lambda>ctx w. (''metered'', w)),
      Cap_Usage = (\<lambda>ctx w. (Fin (of_int (snd w)), (fst w + latency, snd w)))\<rparr>"

text \<open>
  A rejection rate that reads a \<open>CapacityThrottle\<close>: the world holds the throttle and
  the world of the capacity it wraps; usage, likelihood and rate are the throttle's
  \<open>Usage\<close>, the name is the wrapped capacity's. It does not implement \<open>Wrapper\<close>.
\<close>

definition throttledRate ::
  "('w \<Rightarrow> int) \<Rightarrow> ('a, ('a, 'w) CapacityThrottle \<times> 'w) RejectionRate" where
  "throttledRate Now =
     \<lparr>RR_Name = (\<lambda>ctx (t, w). let (n, w1) = Cap_Name (Capacity t) ctx w in (n, (t, w1))),
      RR_Usage = (\<lambda>ctx (t, w). let (v, t1, w1) = CapacityThrottle_Usage Now t ctx w in (v, (t1, w1))),
      RR_Likelihood =
        (\<lambda>ctx (t, w). let (v, t1, w1) = CapacityThrottle_Usage Now t ctx w in (v, (t1, w1))),
      RR_Rate = (\<lambda>ctx (t, w). let (v, t1, w1) = CapacityThrottle_Usage Now t ctx w in (v, (t1, w1))),
      RR_Wrap = None\<rparr>"

text \<open>
  A rejection rate whose \<open>Wrap\<close> keeps count, in the world, of the wrappings it has made
  and returns the action as it is.
\<close>

definition wrapCountingRate :: "float32 \<Rightarrow> ('a, int) RejectionRate" where
  "wrapCountingRate v =
     \<lparr>RR_Name = (\<lambda>ctx w. (''wrap counter'', w)), RR_Usage = (\<lambda>ctx w. (v, w)),
      RR_Likelihood = (\<lambda>ctx w. (v, w)), RR_Rate = (\<lambda>ctx w. (v, w)),
      RR_Wrap = Some (\<lambda>fn w. (fn, w + 1))\<rparr>"

section \<open>The linear curve\<close>

text \<open>
  C7. \<open>CurveLinear.Curve\<close> tests its cases in the order they are written: it returns 0
  when the value is below \<open>Lower\<close>; otherwise 1 when the value is above \<open>Upper\<close>;
  otherwise the quotient \<open>(v - Lower) / (Upper - Lower)\<close>, raised to \<open>Exponent\<close> by
  \<open>math.Pow\<close> unless \<open>Exponent\<close> is 1, in which case the quotient is returned as it is
  and the power function plays no part. The four tabulated inputs give 0, 1, 0.5 and 0.2.
\<close>

theorem CurveLinear_Curve_cases:
  "(flt v (Lower c) \<longrightarrow> CurveLinear_Curve pow c ctx v = Fin 0)
   \<and> (\<not> flt v (Lower c) \<and> fgt v (Upper c) \<longrightarrow> CurveLinear_Curve pow c ctx v = Fin 1)
   \<and> (\<not> flt v (Lower c) \<and> \<not> fgt v (Upper c) \<and> fne (Exponent c) (Fin 1) \<longrightarrow>
        CurveLinear_Curve pow c ctx v =
          pow (fdiv (fsub v (Lower c)) (fsub (Upper c) (Lower c))) (Exponent c))
   \<and> (\<not> flt v (Lower c) \<and> \<not> fgt v (Upper c) \<and> Exponent c = Fin 1 \<longrightarrow>
        CurveLinear_Curve pow c ctx v = fdiv (fsub v (Lower c)) (fsub (Upper c) (Lower c)))
   \<and> CurveLinear_Curve pow \<lparr>Upper = Fin 200, Lower = Fin 100, Exponent = Fin 1\<rparr> ctx (Fin 50) = Fin 0
   \<and> CurveLinear_Curve pow \<lparr>Upper = Fin 20, Lower = Fin 0, Exponent = Fin 1\<rparr> ctx (Fin 50) = Fin 1
   \<and> CurveLinear_Curve pow \<lparr>Upper = Fin 100, Lower = Fin 0, Exponent = Fin 1\<rparr> ctx (Fin 50) = Fin (1/2)
   \<and> CurveLinear_Curve pow \<lparr>Upper = Fin 180, Lower = Fin 80, Exponent = Fin 1\<rparr> ctx (Fin 100) = Fin (1/5)"
  by (simp add: CurveLinear_Curve_def fgt_def Let_def)

theorem CurveLinear_Curve_cases_witness:
  "flt (Fin 50) (Fin 100)
   \<and> CurveLinear_Curve (\<lambda>x y. x) \<lparr>Upper = Fin 200, Lower = Fin 100, Exponent = Fin 1\<rparr>
         \<lparr>classValue = None, other = ()\<rparr> (Fin 50) = Fin 0
   \<and> \<not> flt (Fin 50) (Fin 0) \<and> fgt (Fin 50) (Fin 20)
   \<and> CurveLinear_Curve (\<lambda>x y. x) \<lparr>Upper = Fin 20, Lower = Fin 0, Exponent = Fin 1\<rparr>
         \<lparr>classValue = None, other = ()\<rparr> (Fin 50) = Fin 1
   \<and> \<not> fgt (Fin 50) (Fin 100) \<and> fne (Fin 2) (Fin 1)
   \<and> CurveLinear_Curve (\<lambda>x y. fsub x y) \<lparr>Upper = Fin 100, Lower = Fin 0, Exponent = Fin 2\<rparr>
         \<lparr>classValue = None, other = ()\<rparr> (Fin 50) = Fin (- 3 / 2)
   \<and> \<not> flt (Fin 100) (Fin 80) \<and> \<not> fgt (Fin 100) (Fin 180)
   \<and> CurveLinear_Curve (\<lambda>x y. x) \<lparr>Upper = Fin 180, Lower = Fin 80, Exponent = Fin 1\<rparr>
         \<lparr>classValue = None, other = ()\<rparr> (Fin 100) = Fin (1 / 5)"
  using
    CurveLinear_Curve_cases [where v = "Fin 50" and pow = "\<lambda>x y. x"
      and c = "\<lparr>Upper = Fin 200, Lower = Fin 100, Exponent = Fin 1\<rparr>"
      and ctx = "\<lparr>classValue = None, other = ()\<rparr>"]
    CurveLinear_Curve_cases [where v = "Fin 50" and pow = "\<lambda>x y. x"
      and c = "\<lparr>Upper = Fin 20, Lower = Fin 0, Exponent = Fin 1\<rparr>"
      and ctx = "\<lparr>classValue = None, other = ()\<rparr>"]
    CurveLinear_Curve_cases [where v = "Fin 50" and pow = "\<lambda>x y. fsub x y"
      and c = "\<lparr>Upper = Fin 100, Lower = Fin 0, Exponent = Fin 2\<rparr>"
      and ctx = "\<lparr>classValue = None, other = ()\<rparr>"]
    CurveLinear_Curve_cases [where v = "Fin 100" and pow = "\<lambda>x y. x"
      and c = "\<lparr>Upper = Fin 180, Lower = Fin 80, Exponent = Fin 1\<rparr>"
      and ctx = "\<lparr>classValue = None, other = ()\<rparr>"]
  by (simp add: fgt_def)

section \<open>The decision\<close>

text \<open>Rules that pass are skipped by the first loop, rates that pass by the second.\<close>

lemma passRules_append:
  "passRules pre ctx w = Some w1 \<Longrightarrow> Select_rules (pre @ rs) ctx w = Select_rules rs ctx w1"
  by (induction pre arbitrary: w) (auto split: prod.splits if_splits)

lemma passRules_none:
  "passRules rs ctx w = Some w1 \<Longrightarrow> Select_rules rs ctx w = (None, w1)"
  using passRules_append [of rs ctx w w1 "[]"] by simp

lemma passRates_append:
  "passRates rnd pre ctx w g = Some (w2, g2) \<Longrightarrow>
     Select_rates rnd (pre @ rs) ctx w g = Select_rates rnd rs ctx w2 g2"
  by (induction pre arbitrary: w g) (auto split: prod.splits if_splits)

lemma passRates_draws:
  "passRates rnd pre ctx w g = Some (w2, g2) \<Longrightarrow> g2 = draws rnd (length pre) g"
  by (induction pre arbitrary: w g) (auto split: prod.splits if_splits)

lemma draws_Suc_end: "draws rnd (Suc n) g = snd (rnd (draws rnd n g))"
  by (induction n arbitrary: g) auto

text \<open>
  C1. \<open>Select\<close> asks the rules in registration order. When the rules before \<open>r\<close> pass
  and \<open>r\<close> rejects, the result is an \<open>ErrRejection\<close> whose \<open>Rule\<close> is the name of
  \<open>r\<close> and whose \<open>Name\<close>, \<open>Usage\<close>, \<open>Likelihood\<close> and \<open>Rate\<close> are zero; the rules
  after \<open>r\<close>, the rejection rates and the random source play no part, and the random
  source is left as it was. When every rule passes, the rates are read in registration
  order with one draw for each; when the rates before \<open>q\<close> pass and the draw for \<open>q\<close> is
  below its rate, the result has \<open>Rule = "PROBABILISTIC"\<close>, the name of \<open>q\<close>, its
  \<open>Usage\<close> and \<open>Likelihood\<close> as read then and the rate that was compared; the rates after
  \<open>q\<close> play no part and the random source has been drawn from once for each rate up to
  \<open>q\<close>. When every rule and every rate passes, \<open>Select\<close> returns \<open>nil\<close> after one draw
  for each rate.
\<close>

theorem Select_decision:
  "(passRules pre ctx w = Some w1 \<and> Rule_Reject r ctx w1 = (True, w2) \<and> Rule_Name r ctx w2 = (n, w3) \<longrightarrow>
      Select (s\<lparr>rules := pre @ r # post\<rparr>) ctx w g =
        (Some \<lparr>Rule = n, Classification = ClassificationFromContext ctx, Name = [],
               Usage = Fin 0, Likelihood = Fin 0, Rate = Fin 0\<rparr>, w3, g))
   \<and> (passRules (rules s) ctx w = Some v1 \<and> passRates (randFloat s) qre ctx v1 g = Some (v2, g2)
        \<and> RR_Rate q ctx v2 = (rate, v3) \<and> randFloat s g2 = (d, g3) \<and> flt d rate
        \<and> RR_Name q ctx v3 = (m, v4) \<and> RR_Usage q ctx v4 = (u, v5) \<and> RR_Likelihood q ctx v5 = (l, v6) \<longrightarrow>
      Select (s\<lparr>rejectionRates := qre @ q # qost\<rparr>) ctx w g =
        (Some \<lparr>Rule = ''PROBABILISTIC'', Classification = ClassificationFromContext ctx, Name = m,
               Usage = u, Likelihood = l, Rate = rate\<rparr>, v6, g3)
      \<and> g3 = draws (randFloat s) (Suc (length qre)) g)
   \<and> (passRules (rules s) ctx w = Some x1
        \<and> passRates (randFloat s) (rejectionRates s) ctx x1 g = Some (x2, h2) \<longrightarrow>
      Select s ctx w g = (None, x2, h2) \<and> h2 = draws (randFloat s) (length (rejectionRates s)) g)"
proof (intro conjI impI)
  assume a: "passRules pre ctx w = Some w1 \<and> Rule_Reject r ctx w1 = (True, w2) \<and> Rule_Name r ctx w2 = (n, w3)"
  then have "Select_rules (pre @ r # post) ctx w = Select_rules (r # post) ctx w1"
    by (simp add: passRules_append)
  with a show "Select (s\<lparr>rules := pre @ r # post\<rparr>) ctx w g =
        (Some \<lparr>Rule = n, Classification = ClassificationFromContext ctx, Name = [],
               Usage = Fin 0, Likelihood = Fin 0, Rate = Fin 0\<rparr>, w3, g)"
    by (simp add: Select_def)
next
  assume a: "passRules (rules s) ctx w = Some v1 \<and> passRates (randFloat s) qre ctx v1 g = Some (v2, g2)
        \<and> RR_Rate q ctx v2 = (rate, v3) \<and> randFloat s g2 = (d, g3) \<and> flt d rate
        \<and> RR_Name q ctx v3 = (m, v4) \<and> RR_Usage q ctx v4 = (u, v5) \<and> RR_Likelihood q ctx v5 = (l, v6)"
  then have r: "Select_rules (rules s) ctx w = (None, v1)"
    by (simp add: passRules_none)
  from a have "Select_rates (randFloat s) (qre @ q # qost) ctx v1 g
      = Select_rates (randFloat s) (q # qost) ctx v2 g2"
    by (simp add: passRates_append)
  with a r show "Select (s\<lparr>rejectionRates := qre @ q # qost\<rparr>) ctx w g =
        (Some \<lparr>Rule = ''PROBABILISTIC'', Classification = ClassificationFromContext ctx, Name = m,
               Usage = u, Likelihood = l, Rate = rate\<rparr>, v6, g3)"
    by (simp add: Select_def RuleProbabilistic_def)
  from a have "g2 = draws (randFloat s) (length qre) g"
    using passRates_draws by fastforce
  with a show "g3 = draws (randFloat s) (Suc (length qre)) g"
    by (simp add: draws_Suc_end del: draws.simps)
next
  assume a: "passRules (rules s) ctx w = Some x1
        \<and> passRates (randFloat s) (rejectionRates s) ctx x1 g = Some (x2, h2)"
  then have r: "Select_rules (rules s) ctx w = (None, x1)"
    by (simp add: passRules_none)
  from a have "Select_rates (randFloat s) (rejectionRates s @ []) ctx x1 g
      = Select_rates (randFloat s) [] ctx x2 h2"
    by (intro passRates_append) simp
  with r show "Select s ctx w g = (None, x2, h2)"
    by (simp add: Select_def)
  from a show "h2 = draws (randFloat s) (length (rejectionRates s)) g"
    using passRates_draws by fastforce
qed

theorem Select_decision_witness:
  "passRules [staticRule False] Background (\<lambda>_. 0 :: int) = Some (\<lambda>_. 0)
   \<and> Rule_Reject (staticRule True) Background (\<lambda>_. 0 :: int) = (True, \<lambda>_. 0)
   \<and> Select \<lparr>randFloat = constantRandom (Fin (1 / 2)), rejectionRates = [staticCountingRate 0 (Fin 0)],
              rules = [staticRule False, staticRule True, staticRule False], classifier = None\<rparr>
         Background (\<lambda>_. 0) 0
       = (Some \<lparr>Rule = ''static'', Classification = [], Name = [],
                Usage = Fin 0, Likelihood = Fin 0, Rate = Fin 0\<rparr>, \<lambda>_. 0, 0)
   \<and> passRates (constantRandom (Fin (1 / 2))) [staticCountingRate 0 (Fin 0)] Background (\<lambda>_. 0) 0
       = Some (\<lambda>_. 0, 1)
   \<and> flt (Fin (1 / 2)) (Fin 1)
   \<and> Select \<lparr>randFloat = constantRandom (Fin (1 / 2)),
              rejectionRates = [staticCountingRate 0 (Fin 0), staticCountingRate 1 (Fin 1),
                                staticCountingRate 0 (Fin 0)],
              rules = [staticRule False], classifier = None\<rparr>
         Background (\<lambda>_. 0) 0
       = (Some \<lparr>Rule = ''PROBABILISTIC'', Classification = [], Name = ''static'',
                Usage = Fin 1, Likelihood = Fin 1, Rate = Fin 1\<rparr>, \<lambda>_. 0, 2)
   \<and> Select \<lparr>randFloat = constantRandom (Fin (1 / 2)), rejectionRates = [staticCountingRate 0 (Fin 0)],
              rules = [staticRule False], classifier = None\<rparr>
         Background (\<lambda>_. 0) 0
       = (None, \<lambda>_. 0, 1)"
  using Select_decision [where
      s = "\<lparr>randFloat = constantRandom (Fin (1 / 2)), rejectionRates = [staticCountingRate 0 (Fin 0)],
            rules = [staticRule False], classifier = None\<rparr>"
      and ctx = Background and w = "\<lambda>_. 0 :: int" and g = 0
      and pre = "[staticRule False]" and r = "staticRule True" and post = "[staticRule False]"
      and ?w1.0 = "\<lambda>_. 0" and ?w2.0 = "\<lambda>_. 0" and ?w3.0 = "\<lambda>_. 0" and n = "''static''"
      and qre = "[staticCountingRate 0 (Fin 0)]" and q = "staticCountingRate 1 (Fin 1)"
      and qost = "[staticCountingRate 0 (Fin 0)]"
      and ?v1.0 = "\<lambda>_. 0" and ?v2.0 = "\<lambda>_. 0" and ?v3.0 = "\<lambda>_. 0" and ?v4.0 = "\<lambda>_. 0"
      and ?v5.0 = "\<lambda>_. 0" and ?v6.0 = "\<lambda>_. 0" and ?g2.0 = 1 and ?g3.0 = 2
      and rate = "Fin 1" and d = "Fin (1 / 2)" and m = "''static''" and u = "Fin 1" and l = "Fin 1"
      and ?x1.0 = "\<lambda>_. 0" and ?x2.0 = "\<lambda>_. 0" and ?h2.0 = 1]
  by (simp add: staticRule_def staticCountingRate_def constantRandom_def nameStatic_def
      Background_def ClassificationFromContext_def)

section \<open>Rates at the ends of the unit interval\<close>

lemma unit_draw_not_below:
  "unitInterval d \<Longrightarrow> fle rate (Fin 0) \<Longrightarrow> \<not> flt d rate"
  by (cases d; cases rate) (auto simp: unitInterval_def)

lemma unit_draw_below:
  "unitInterval d \<Longrightarrow> fge rate (Fin 1) \<Longrightarrow> flt d rate"
  by (cases d; cases rate) (auto simp: unitInterval_def fge_def)

text \<open>
  C10. With a random source whose values all lie in \<open>[0, 1)\<close>, a rejection rate that
  \<open>Select\<close> reaches (every rule passes, every rate registered before it passes) does not
  reject when its \<open>Rate\<close> is at most 0: the decision is the one the remaining rates make.
  It rejects with \<open>Rule = "PROBABILISTIC"\<close> and its own name when its \<open>Rate\<close> is at
  least 1.
\<close>

theorem Select_rate_extremes:
  "(\<forall>h. unitInterval (fst (randFloat s h))) \<and> passRules (rules s) ctx w = Some w1
     \<and> passRates (randFloat s) pre ctx w1 g = Some (w2, g2) \<and> RR_Rate r ctx w2 = (rate, w3) \<longrightarrow>
   (fle rate (Fin 0) \<longrightarrow>
      Select (s\<lparr>rejectionRates := pre @ r # post\<rparr>) ctx w g =
        Select_rates (randFloat s) post ctx w3 (snd (randFloat s g2)))
   \<and> (fge rate (Fin 1) \<longrightarrow>
      fst (Select (s\<lparr>rejectionRates := pre @ r # post\<rparr>) ctx w g) =
        Some \<lparr>Rule = ''PROBABILISTIC'', Classification = ClassificationFromContext ctx,
              Name = fst (RR_Name r ctx w3),
              Usage = fst (RR_Usage r ctx (snd (RR_Name r ctx w3))),
              Likelihood = fst (RR_Likelihood r ctx (snd (RR_Usage r ctx (snd (RR_Name r ctx w3))))),
              Rate = rate\<rparr>)"
proof (intro impI conjI)
  assume a: "(\<forall>h. unitInterval (fst (randFloat s h))) \<and> passRules (rules s) ctx w = Some w1
     \<and> passRates (randFloat s) pre ctx w1 g = Some (w2, g2) \<and> RR_Rate r ctx w2 = (rate, w3)"
  then have u: "unitInterval (fst (randFloat s g2))" by blast
  from a have sel: "Select (s\<lparr>rejectionRates := pre @ r # post\<rparr>) ctx w g
      = Select_rates (randFloat s) (r # post) ctx w2 g2"
    by (simp add: Select_def passRules_none passRates_append)
  {
    assume "fle rate (Fin 0)"
    with u have "\<not> flt (fst (randFloat s g2)) rate" by (rule unit_draw_not_below)
    with a sel show "Select (s\<lparr>rejectionRates := pre @ r # post\<rparr>) ctx w g =
        Select_rates (randFloat s) post ctx w3 (snd (randFloat s g2))"
      by (simp add: split_beta)
  }
  {
    assume "fge rate (Fin 1)"
    with u have "flt (fst (randFloat s g2)) rate" by (rule unit_draw_below)
    with a sel show "fst (Select (s\<lparr>rejectionRates := pre @ r # post\<rparr>) ctx w g) =
        Some \<lparr>Rule = ''PROBABILISTIC'', Classification = ClassificationFromContext ctx,
              Name = fst (RR_Name r ctx w3),
              Usage = fst (RR_Usage r ctx (snd (RR_Name r ctx w3))),
              Likelihood = fst (RR_Likelihood r ctx (snd (RR_Usage r ctx (snd (RR_Name r ctx w3))))),
              Rate = rate\<rparr>"
      by (simp add: split_beta RuleProbabilistic_def)
  }
qed

theorem Select_rate_extremes_witness:
  "fle (Fin 0) (Fin 0)
   \<and> Select \<lparr>randFloat = constantRandom (Fin 0), rejectionRates = [staticCountingRate 0 (Fin 0)],
              rules = [], classifier = None\<rparr> Background (\<lambda>_. 0) 0
       = (None, \<lambda>_. 0, 1)
   \<and> fge (Fin 1) (Fin 1)
   \<and> fst (Select \<lparr>randFloat = constantRandom (Fin 0), rejectionRates = [staticCountingRate 0 (Fin 1)],
              rules = [], classifier = None\<rparr> Background (\<lambda>_. 0) 0)
       = Some \<lparr>Rule = ''PROBABILISTIC'', Classification = [], Name = ''static'',
               Usage = Fin 1, Likelihood = Fin 1, Rate = Fin 1\<rparr>"
  using
    Select_rate_extremes [where
      s = "\<lparr>randFloat = constantRandom (Fin 0), rejectionRates = [], rules = [], classifier = None\<rparr>"
      and ctx = Background and w = "\<lambda>_. 0 :: int" and g = 0 and pre = "[]" and post = "[]"
      and r = "staticCountingRate 0 (Fin 0)" and rate = "Fin 0"
      and ?w1.0 = "\<lambda>_. 0" and ?w2.0 = "\<lambda>_. 0" and ?w3.0 = "\<lambda>_. 0" and ?g2.0 = 0]
    Select_rate_extremes [where
      s = "\<lparr>randFloat = constantRandom (Fin 0), rejectionRates = [], rules = [], classifier = None\<rparr>"
      and ctx = Background and w = "\<lambda>_. 0 :: int" and g = 0 and pre = "[]" and post = "[]"
      and r = "staticCountingRate 0 (Fin 1)" and rate = "Fin 1"
      and ?w1.0 = "\<lambda>_. 0" and ?w2.0 = "\<lambda>_. 0" and ?w3.0 = "\<lambda>_. 0" and ?g2.0 = 0]
  by (simp add: staticCountingRate_def constantRandom_def nameStatic_def unitInterval_def fge_def
      Background_def ClassificationFromContext_def)

section \<open>Rejection in Do\<close>

text \<open>
  \<open>Select\<close> does not look at the \<open>Wrap\<close> of a rate, and leaves the world alone when
  every method it calls does.
\<close>

lemma Select_rates_rewrap:
  "Select_rates rnd (map (\<lambda>r. r\<lparr>RR_Wrap := wr r\<rparr>) rs) ctx w g = Select_rates rnd rs ctx w g"
  by (induction rs arbitrary: w g) (simp_all add: split_beta)

lemma Select_rewrap:
  "Select (s\<lparr>rejectionRates := map (\<lambda>r. r\<lparr>RR_Wrap := wr r\<rparr>) (rejectionRates s)\<rparr>) ctx w g
     = Select s ctx w g"
  by (simp add: Select_def Select_rates_rewrap split: prod.splits option.splits)

lemma readOnlyD: "readOnly m \<Longrightarrow> snd (m ctx w) = w"
  by (simp add: readOnly_def)

lemma Select_rules_readOnly:
  "\<forall>r \<in> set rs. readOnly (Rule_Name r) \<and> readOnly (Rule_Reject r) \<Longrightarrow>
     snd (Select_rules rs ctx w) = w"
  by (induction rs arbitrary: w) (simp_all add: split_beta readOnlyD)

lemma Select_rates_readOnly:
  "\<forall>r \<in> set rs. readOnly (RR_Name r) \<and> readOnly (RR_Usage r)
       \<and> readOnly (RR_Likelihood r) \<and> readOnly (RR_Rate r) \<Longrightarrow>
     fst (snd (Select_rates rnd rs ctx w g)) = w"
  by (induction rs arbitrary: w g) (simp_all add: split_beta readOnlyD)

lemma Select_readOnly:
  "readOnlyShedder s \<Longrightarrow> fst (snd (Select s ctx w g)) = w"
proof -
  assume ro: "readOnlyShedder s"
  then have a: "snd (Select_rules (rules s) ctx w) = w"
    by (intro Select_rules_readOnly) (simp add: readOnlyShedder_def)
  from ro have b: "fst (snd (Select_rates (randFloat s) (rejectionRates s) ctx w g)) = w"
    by (intro Select_rates_readOnly) (simp add: readOnlyShedder_def)
  show ?thesis
  proof (cases "Select_rules (rules s) ctx w")
    case (Pair res w1)
    with a have "w1 = w" by simp
    with Pair b show ?thesis by (cases res) (simp_all add: Select_def)
  qed
qed

lemma classify_readOnly:
  "readOnlyShedder s \<Longrightarrow> snd (classify s ctx w) = w"
  by (cases "classifier s") (simp_all add: classify_def readOnlyShedder_def split_beta readOnlyD)

text \<open>
  C2, as the code has it. When \<open>Select\<close>, on the context \<open>Do\<close> has extended with the
  classification, returns a rejection, \<open>Do\<close> returns that \<open>ErrRejection\<close>, whatever the
  action is and whatever the \<open>Wrap\<close> of each rejection rate is: neither is applied, so no
  capacity observes the invocation. The world \<open>Do\<close> leaves is the one the classifier and
  \<open>Select\<close> left; where the methods of the rules, the rates and the classifier only
  read, it is the world \<open>Do\<close> started in.
\<close>

theorem Do_rejection:
  "classify s ctx w = (ctx1, w1) \<and> Select s ctx1 w1 g = (Some err, w2, g2) \<longrightarrow>
     Do s ctx fn w g = (Returned (Some (Rejection err)), w2, g2)
     \<and> Do (s\<lparr>rejectionRates := map (\<lambda>r. r\<lparr>RR_Wrap := wr r\<rparr>) (rejectionRates s)\<rparr>) ctx fn' w g
         = (Returned (Some (Rejection err)), w2, g2)
     \<and> (readOnlyShedder s \<longrightarrow> w2 = w)"
proof (intro impI conjI)
  assume a: "classify s ctx w = (ctx1, w1) \<and> Select s ctx1 w1 g = (Some err, w2, g2)"
  then show "Do s ctx fn w g = (Returned (Some (Rejection err)), w2, g2)"
    by (simp add: Do_def)
  from a have "classify (s\<lparr>rejectionRates := map (\<lambda>r. r\<lparr>RR_Wrap := wr r\<rparr>) (rejectionRates s)\<rparr>) ctx w
      = (ctx1, w1)"
    by (simp add: classify_def)
  with a show "Do (s\<lparr>rejectionRates := map (\<lambda>r. r\<lparr>RR_Wrap := wr r\<rparr>) (rejectionRates s)\<rparr>) ctx fn' w g
         = (Returned (Some (Rejection err)), w2, g2)"
    by (simp add: Do_def Select_rewrap)
  {
    assume ro: "readOnlyShedder s"
    from ro have "snd (classify s ctx w) = w" by (rule classify_readOnly)
    with a have "w1 = w" by simp
    moreover from ro have "fst (snd (Select s ctx1 w1 g)) = w1" by (rule Select_readOnly)
    ultimately show "w2 = w" using a by simp
  }
qed

theorem Do_rejection_witness:
  "classify \<lparr>randFloat = constantRandom (Fin 0), rejectionRates = [staticCountingRate 0 (Fin 0)],
             rules = [staticRule True], classifier = Some (\<lambda>ctx w. (''TEST'', w))\<rparr> Background (\<lambda>_. 0)
     = (ClassificationToContext Background ''TEST'', \<lambda>_. 0)
   \<and> readOnlyShedder \<lparr>randFloat = constantRandom (Fin 0), rejectionRates = [staticCountingRate 0 (Fin 0)],
             rules = [staticRule True], classifier = Some (\<lambda>ctx w. (''TEST'', w))\<rparr>
   \<and> Do \<lparr>randFloat = constantRandom (Fin 0), rejectionRates = [staticCountingRate 0 (Fin 0)],
          rules = [staticRule True], classifier = Some (\<lambda>ctx w. (''TEST'', w))\<rparr>
        Background (\<lambda>ctx w. (Returned None, w(7 := 1))) (\<lambda>_. 0) 0
     = (Returned (Some (Rejection \<lparr>Rule = ''static'', Classification = ''TEST'', Name = [],
                                   Usage = Fin 0, Likelihood = Fin 0, Rate = Fin 0\<rparr>)), \<lambda>_. 0, 0)"
  using Do_rejection [where
      s = "\<lparr>randFloat = constantRandom (Fin 0), rejectionRates = [staticCountingRate 0 (Fin 0)],
            rules = [staticRule True], classifier = Some (\<lambda>ctx w. (''TEST'', w))\<rparr>"
      and ctx = Background and w = "\<lambda>_. 0 :: int" and g = 0
      and ?ctx1.0 = "ClassificationToContext Background ''TEST''"
      and ?w1.0 = "\<lambda>_. 0" and ?w2.0 = "\<lambda>_. 0" and ?g2.0 = 0
      and fn = "\<lambda>ctx w. (Returned None, w(7 := 1))"
      and err = "\<lparr>Rule = ''static'', Classification = ''TEST'', Name = [],
                 Usage = Fin 0, Likelihood = Fin 0, Rate = Fin 0\<rparr>"]
  by (simp add: classify_def Select_def staticRule_def staticCountingRate_def nameStatic_def
      readOnlyShedder_def readOnly_def ClassificationFromContext_def ClassificationToContext_def
      Background_def)

text \<open>
  A rejection can change capacity state: a rate that reads a \<open>CapacityThrottle\<close> makes
  the throttle refresh its cache and its time stamp while \<open>Select\<close> reads the rate.
\<close>

theorem Do_rejection_counterexample:
  "Do \<lparr>randFloat = constantRandom (Fin 0), rejectionRates = [throttledRate fst],
        rules = [], classifier = None\<rparr> Background (\<lambda>ctx w. (Returned None, w))
      (NewCapacityThrottle fst (meteredCapacity 5) 100, (1000, 3)) 0
     = (Returned (Some (Rejection \<lparr>Rule = ''PROBABILISTIC'', Classification = [], Name = ''metered'',
                                   Usage = Fin 3, Likelihood = Fin 3, Rate = Fin 3\<rparr>)),
        ((NewCapacityThrottle fst (meteredCapacity 5) 100)\<lparr>cache := Fin 3, last := 1005\<rparr>, (1005, 3)),
        1)
   \<and> cache (NewCapacityThrottle fst (meteredCapacity 5) 100) = Fin 0
   \<and> cache ((NewCapacityThrottle fst (meteredCapacity 5) 100)\<lparr>cache := Fin 3, last := 1005\<rparr>) = Fin 3"
  by (simp add: Do_def classify_def Select_def throttledRate_def CapacityThrottle_Usage_def
      NewCapacityThrottle_def meteredCapacity_def time_Since_def Time_Sub_def zeroTime_def
      minDuration_def maxDuration_def constantRandom_def RuleProbabilistic_def
      ClassificationFromContext_def Background_def)

section \<open>WrapSelect\<close>

text \<open>Wrappers that only build leave the world alone and build the same action anywhere.\<close>

lemma wrapRates_buildOnly:
  "wrappersBuildOnly rs \<Longrightarrow>
     snd (wrapRates rs fn w) = w \<and> fst (wrapRates rs fn w) = fst (wrapRates rs fn w')"
proof (induction rs arbitrary: fn)
  case Nil
  show ?case by simp
next
  case (Cons r rs)
  then have rest: "wrappersBuildOnly rs"
    by (simp add: wrappersBuildOnly_def)
  show ?case
  proof (cases "RR_Wrap r")
    case None
    with Cons.IH [OF rest] show ?thesis by simp
  next
    case (Some wr)
    with Cons.prems have b: "buildsOnly wr"
      by (simp add: wrappersBuildOnly_def)
    define f1 where "f1 = fst (wr fn w)"
    from b have e: "wr fn w = (f1, w)" and e': "wr fn w' = (f1, w')"
      by (simp_all add: buildsOnly_def prod_eq_iff f1_def)
    from Cons.IH [OF rest, of f1] show ?thesis
      by (simp add: Some e e')
  qed
qed

text \<open>
  C6, as the code has it. \<open>WrapSelect\<close> runs the wrapping loop once, when it is called:
  the loop goes through the rates in registration order, skips those without a \<open>Wrap\<close>
  and hands each \<open>Wrap\<close> the action the one before returned; the function it returns is
  the function literal over the action so wrapped. A call of that function classifies
  (when there is a classifier) and calls \<open>Select\<close> anew, returns the rejection when there
  is one, and otherwise runs the wrapped action on the classified context. When the
  \<open>Wrap\<close> of every rate only builds the wrapped action, building changes nothing and a
  call of the returned function gives the result, the world and the random source that
  \<open>Do\<close> gives on the same context with the same action.
\<close>

theorem WrapSelect_and_Do:
  "(wrapRates (rejectionRates s) fn w0 = (fn1, w1) \<longrightarrow>
      WrapSelect s fn w0 = (WrapSelect_closure s fn1, w1))
   \<and> wrapRates [] fn w0 = (fn, w0)
   \<and> (RR_Wrap r = None \<longrightarrow> wrapRates (r # rs) fn w0 = wrapRates rs fn w0)
   \<and> (RR_Wrap r = Some wr \<and> wr fn w0 = (fn2, w2) \<longrightarrow>
        wrapRates (r # rs) fn w0 = wrapRates rs fn2 w2)
   \<and> (classifier s = Some c \<and> c ctx w = (cls, wc) \<longrightarrow>
        WrapSelect_closure s f ctx w g =
          (case Select s (ClassificationToContext ctx cls) wc g of
             (Some err, w3, g3) \<Rightarrow> (Returned (Some (Rejection err)), w3, g3)
           | (None, w3, g3) \<Rightarrow>
               (let (out, w4) = f (ClassificationToContext ctx cls) w3 in (out, w4, g3))))
   \<and> (classifier s = None \<longrightarrow>
        WrapSelect_closure s f ctx w g =
          (case Select s ctx w g of
             (Some err, w3, g3) \<Rightarrow> (Returned (Some (Rejection err)), w3, g3)
           | (None, w3, g3) \<Rightarrow> (let (out, w4) = f ctx w3 in (out, w4, g3))))
   \<and> (wrappersBuildOnly (rejectionRates s) \<and> wrapRates (rejectionRates s) fn w0 = (fn1, w1) \<longrightarrow>
        w1 = w0 \<and> WrapSelect_closure s fn1 ctx w g = Do s ctx fn w g)"
proof (intro conjI impI)
  assume "wrapRates (rejectionRates s) fn w0 = (fn1, w1)"
  then show "WrapSelect s fn w0 = (WrapSelect_closure s fn1, w1)"
    by (simp add: WrapSelect_def)
next
  show "wrapRates [] fn w0 = (fn, w0)" by simp
next
  assume "RR_Wrap r = None"
  then show "wrapRates (r # rs) fn w0 = wrapRates rs fn w0" by simp
next
  assume "RR_Wrap r = Some wr \<and> wr fn w0 = (fn2, w2)"
  then show "wrapRates (r # rs) fn w0 = wrapRates rs fn2 w2" by simp
next
  assume "classifier s = Some c \<and> c ctx w = (cls, wc)"
  then show "WrapSelect_closure s f ctx w g =
          (case Select s (ClassificationToContext ctx cls) wc g of
             (Some err, w3, g3) \<Rightarrow> (Returned (Some (Rejection err)), w3, g3)
           | (None, w3, g3) \<Rightarrow>
               (let (out, w4) = f (ClassificationToContext ctx cls) w3 in (out, w4, g3)))"
    by (simp add: WrapSelect_closure_def classify_def)
next
  assume "classifier s = None"
  then show "WrapSelect_closure s f ctx w g =
          (case Select s ctx w g of
             (Some err, w3, g3) \<Rightarrow> (Returned (Some (Rejection err)), w3, g3)
           | (None, w3, g3) \<Rightarrow> (let (out, w4) = f ctx w3 in (out, w4, g3)))"
    by (simp add: WrapSelect_closure_def classify_def)
next
  assume a: "wrappersBuildOnly (rejectionRates s) \<and> wrapRates (rejectionRates s) fn w0 = (fn1, w1)"
  then have b: "wrappersBuildOnly (rejectionRates s)" by simp
  from wrapRates_buildOnly [OF b, of fn w0] a show "w1 = w0" by simp
  have "wrapRates (rejectionRates s) fn v = (fn1, v)" for v
    using wrapRates_buildOnly [OF b, of fn v w0] a by (simp add: prod_eq_iff)
  then show "WrapSelect_closure s fn1 ctx w g = Do s ctx fn w g"
    by (simp add: WrapSelect_closure_def Do_def split: prod.splits option.splits)
qed

theorem WrapSelect_and_Do_witness:
  "wrappersBuildOnly [staticCountingRate 0 (Fin 0)]
   \<and> snd (WrapSelect \<lparr>randFloat = constantRandom (Fin 0), rejectionRates = [staticCountingRate 0 (Fin 0)],
                      rules = [], classifier = Some (\<lambda>ctx w. (''TEST'', w))\<rparr>
             (\<lambda>ctx w. (Returned None, w)) (\<lambda>_. 0)) = (\<lambda>_. 0)
   \<and> fst (WrapSelect \<lparr>randFloat = constantRandom (Fin 0), rejectionRates = [staticCountingRate 0 (Fin 0)],
                      rules = [], classifier = Some (\<lambda>ctx w. (''TEST'', w))\<rparr>
             (\<lambda>ctx w. (Returned None, w)) (\<lambda>_. 0)) Background (\<lambda>_. 0) 0
       = (Returned None, (\<lambda>_. 0)(0 := 1), 1)
   \<and> Do \<lparr>randFloat = constantRandom (Fin 0), rejectionRates = [staticCountingRate 0 (Fin 0)],
          rules = [], classifier = Some (\<lambda>ctx w. (''TEST'', w))\<rparr>
        Background (\<lambda>ctx w. (Returned None, w)) (\<lambda>_. 0) 0
       = (Returned None, (\<lambda>_. 0)(0 := 1), 1)"
  using WrapSelect_and_Do [where
      s = "\<lparr>randFloat = constantRandom (Fin 0), rejectionRates = [staticCountingRate 0 (Fin 0)],
            rules = [], classifier = Some (\<lambda>ctx w. (''TEST'', w))\<rparr>"
      and fn = "\<lambda>ctx w. (Returned None, w)" and ?w0.0 = "\<lambda>_. 0 :: int"
      and ?fn1.0 = "\<lambda>ctx w'. (Returned None, w'(0 := w' 0 + 1))" and ?w1.0 = "\<lambda>_. 0"
      and r = "staticCountingRate 0 (Fin 0)" and rs = "[]"
      and wr = "\<lambda>fn w. (\<lambda>ctx w'. fn ctx (w'(0 := w' 0 + 1)), w)"
      and ?fn2.0 = "\<lambda>ctx w'. (Returned None, w'(0 := w' 0 + 1))" and ?w2.0 = "\<lambda>_. 0"
      and c = "\<lambda>ctx w. (''TEST'', w)" and ctx = Background and w = "\<lambda>_. 0" and g = 0
      and cls = "''TEST''" and wc = "\<lambda>_. 0"
      and f = "\<lambda>ctx w'. (Returned None, w'(0 := w' 0 + 1))"]
  by (simp add: wrappersBuildOnly_def buildsOnly_def staticCountingRate_def constantRandom_def
      Select_def WrapSelect_def WrapSelect_closure_def Do_def classify_def)

text \<open>
  A \<open>Wrap\<close> that does something when it wraps tells the two apart: \<open>Do\<close> wraps at
  every call, the function \<open>WrapSelect\<close> returned does not wrap again.
\<close>

theorem WrapSelect_rewrap_counterexample:
  "fst (WrapSelect \<lparr>randFloat = constantRandom (Fin (1 / 2)), rejectionRates = [wrapCountingRate (Fin 0)],
                    rules = [], classifier = None\<rparr> (\<lambda>ctx w. (Returned None, w)) 0)
       Background 1 0 = (Returned None, 1, 1)
   \<and> Do \<lparr>randFloat = constantRandom (Fin (1 / 2)), rejectionRates = [wrapCountingRate (Fin 0)],
          rules = [], classifier = None\<rparr> Background (\<lambda>ctx w. (Returned None, w)) 1 0
       = (Returned None, 2, 1)"
  by (simp add: WrapSelect_def WrapSelect_closure_def Do_def classify_def Select_def
      wrapCountingRate_def constantRandom_def)

section \<open>The identity rejection rate\<close>

text \<open>
  C8. The rate of \<open>NewRejectionRateCurveIdentity(p)\<close> is the likelihood of \<open>p\<close>, for
  every context and every world: the value and the world left are those of
  \<open>p.Likelihood\<close>.
\<close>

theorem Identity_Rate_is_Likelihood:
  "RejectionRateCurve_Rate (NewRejectionRateCurveIdentity p) ctx w = FP_Likelihood p ctx w"
  by (simp add: RejectionRateCurve_Rate_def NewRejectionRateCurveIdentity_def CurveFN_def split_beta)

section \<open>Classification in Do\<close>

text \<open>A rejection carries the classification of the context \<open>Select\<close> was given.\<close>

lemma Select_rules_Classification:
  "Select_rules rs ctx w = (Some err, w') \<Longrightarrow> Classification err = ClassificationFromContext ctx"
  by (induction rs arbitrary: w) (auto split: prod.splits if_splits)

lemma Select_rates_Classification:
  "Select_rates rnd rs ctx w g = (Some err, w', g') \<Longrightarrow>
     Classification err = ClassificationFromContext ctx"
  by (induction rs arbitrary: w g) (auto split: prod.splits if_splits)

lemma Select_Classification:
  "Select s ctx w g = (Some err, w', g') \<Longrightarrow> Classification err = ClassificationFromContext ctx"
  by (auto simp: Select_def split: prod.splits option.splits
      dest: Select_rules_Classification Select_rates_Classification)

text \<open>
  C9, as the code has it. With a \<open>Classifier\<close>, \<open>Do\<close> calls it once, on the caller's
  context and world, and puts the classification in the context; \<open>Select\<close> (which does
  not consult the classifier again) and the wrapped action are then given that context,
  in which \<open>ClassificationFromContext\<close> reads the computed classification: a rejection
  carries it, and \<open>RejectionRateCurve.Rate\<close> looks its curve up under it. Without a
  \<open>Classifier\<close>, \<open>Do\<close> gives \<open>Select\<close> and the action the caller's context as it is,
  so \<open>ClassificationFromContext\<close> reads what the caller's context carries: the empty
  classification when it carries none.
\<close>

theorem Do_classification:
  "(classifier s = Some c \<and> c ctx w = (cls, w1) \<longrightarrow>
      Do s ctx fn w g =
        (case Select (s\<lparr>classifier := None\<rparr>) (ClassificationToContext ctx cls) w1 g of
           (Some err, w2, g2) \<Rightarrow> (Returned (Some (Rejection err)), w2, g2)
         | (None, w2, g2) \<Rightarrow>
             (let (fn1, w3) = wrapRates (rejectionRates s) fn w2;
                  (out, w4) = fn1 (ClassificationToContext ctx cls) w3
              in (out, w4, g2)))
      \<and> ClassificationFromContext (ClassificationToContext ctx cls) = cls
      \<and> (\<forall>err w2 g2. Select s (ClassificationToContext ctx cls) w1 g = (Some err, w2, g2) \<longrightarrow>
            Classification err = cls)
      \<and> RejectionRateCurve_Rate rc (ClassificationToContext ctx cls) v =
          (let (current, v1) = FP_Likelihood (FailureProbability rc) (ClassificationToContext ctx cls) v
           in ((case classificationCurves rc cls of None \<Rightarrow> defaultCurve rc | Some k \<Rightarrow> k)
                 (ClassificationToContext ctx cls) current, v1)))
   \<and> (classifier s = None \<longrightarrow>
      Do s ctx fn w g =
        (case Select s ctx w g of
           (Some err, w2, g2) \<Rightarrow> (Returned (Some (Rejection err)), w2, g2)
         | (None, w2, g2) \<Rightarrow>
             (let (fn1, w3) = wrapRates (rejectionRates s) fn w2;
                  (out, w4) = fn1 ctx w3
              in (out, w4, g2)))
      \<and> ClassificationFromContext ctx = (case classValue ctx of None \<Rightarrow> [] | Some v \<Rightarrow> v)
      \<and> (classValue ctx = None \<longrightarrow> ClassificationFromContext ctx = []))"
proof (intro conjI impI allI)
  assume a: "classifier s = Some c \<and> c ctx w = (cls, w1)"
  have sel: "Select (s\<lparr>classifier := None\<rparr>) = Select s"
    by (intro ext) (simp add: Select_def split: prod.splits option.splits)
  from a show "Do s ctx fn w g =
        (case Select (s\<lparr>classifier := None\<rparr>) (ClassificationToContext ctx cls) w1 g of
           (Some err, w2, g2) \<Rightarrow> (Returned (Some (Rejection err)), w2, g2)
         | (None, w2, g2) \<Rightarrow>
             (let (fn1, w3) = wrapRates (rejectionRates s) fn w2;
                  (out, w4) = fn1 (ClassificationToContext ctx cls) w3
              in (out, w4, g2)))"
    by (simp add: Do_def classify_def sel)
next
  show "ClassificationFromContext (ClassificationToContext ctx cls) = cls"
    by (simp add: ClassificationFromContext_def ClassificationToContext_def)
next
  fix err w2 g2
  assume "Select s (ClassificationToContext ctx cls) w1 g = (Some err, w2, g2)"
  then have "Classification err = ClassificationFromContext (ClassificationToContext ctx cls)"
    by (rule Select_Classification)
  then show "Classification err = cls"
    by (simp add: ClassificationFromContext_def ClassificationToContext_def)
next
  show "RejectionRateCurve_Rate rc (ClassificationToContext ctx cls) v =
          (let (current, v1) = FP_Likelihood (FailureProbability rc) (ClassificationToContext ctx cls) v
           in ((case classificationCurves rc cls of None \<Rightarrow> defaultCurve rc | Some k \<Rightarrow> k)
                 (ClassificationToContext ctx cls) current, v1))"
    by (simp add: RejectionRateCurve_Rate_def ClassificationFromContext_def
        ClassificationToContext_def)
next
  assume "classifier s = None"
  then show "Do s ctx fn w g =
        (case Select s ctx w g of
           (Some err, w2, g2) \<Rightarrow> (Returned (Some (Rejection err)), w2, g2)
         | (None, w2, g2) \<Rightarrow>
             (let (fn1, w3) = wrapRates (rejectionRates s) fn w2;
                  (out, w4) = fn1 ctx w3
              in (out, w4, g2)))"
    by (simp add: Do_def classify_def)
next
  show "ClassificationFromContext ctx = (case classValue ctx of None \<Rightarrow> [] | Some v \<Rightarrow> v)"
    by (simp add: ClassificationFromContext_def)
next
  assume "classValue ctx = None"
  then show "ClassificationFromContext ctx = []"
    by (simp add: ClassificationFromContext_def)
qed

theorem Do_classification_witness:
  "Do \<lparr>randFloat = constantRandom (Fin 0), rejectionRates = [staticCountingRate 0 (Fin 0)],
        rules = [], classifier = Some (\<lambda>ctx w. (''TEST'', w))\<rparr>
      Background
      (\<lambda>ctx w. (Returned (if ClassificationFromContext ctx = ''TEST'' then None
                            else Some (ActionError ''the classification was not applied'')), w))
      (\<lambda>_. 0) 0
     = (Returned None, (\<lambda>_. 0)(0 := 1), 1)
   \<and> RejectionRateCurve_Rate
        (NewRejectionRateCurveByClassification (staticProb (Fin (1 / 2))) (CurveFN (\<lambda>ctx v. v))
           [''TEST'' \<mapsto> CurveFN (\<lambda>ctx v. Fin 1)])
        (ClassificationToContext Background ''TEST'') (\<lambda>_. 0 :: int) = (Fin 1, \<lambda>_. 0)
   \<and> Do \<lparr>randFloat = constantRandom (Fin 0), rejectionRates = [staticCountingRate 0 (Fin 0)],
        rules = [], classifier = None\<rparr>
      Background
      (\<lambda>ctx w. (Returned (if ClassificationFromContext ctx = [] then None
                            else Some (ActionError ''a classification was applied'')), w))
      (\<lambda>_. 0) 0
     = (Returned None, (\<lambda>_. 0)(0 := 1), 1)
   \<and> classValue Background = None \<and> ClassificationFromContext Background = []"
  using
    Do_classification [where
      s = "\<lparr>randFloat = constantRandom (Fin 0), rejectionRates = [staticCountingRate 0 (Fin 0)],
            rules = [], classifier = Some (\<lambda>ctx w. (''TEST'', w))\<rparr>"
      and c = "\<lambda>ctx w. (''TEST'', w)" and ctx = Background and w = "\<lambda>_. 0 :: int" and g = 0
      and cls = "''TEST''" and ?w1.0 = "\<lambda>_. 0" and v = "\<lambda>_. 0 :: int"
      and fn = "\<lambda>ctx w. (Returned (if ClassificationFromContext ctx = ''TEST'' then None
                            else Some (ActionError ''the classification was not applied'')), w)"
      and rc = "NewRejectionRateCurveByClassification (staticProb (Fin (1 / 2))) (CurveFN (\<lambda>ctx v. v))
           [''TEST'' \<mapsto> CurveFN (\<lambda>ctx v. Fin 1)]"]
    Do_classification [where
      s = "\<lparr>randFloat = constantRandom (Fin 0), rejectionRates = [staticCountingRate 0 (Fin 0)],
            rules = [], classifier = None\<rparr>"
      and ctx = Background and w = "\<lambda>_. 0 :: int" and g = 0
      and fn = "\<lambda>ctx w. (Returned (if ClassificationFromContext ctx = [] then None
                            else Some (ActionError ''a classification was applied'')), w)"]
  by (simp add: Select_def staticCountingRate_def staticProb_def constantRandom_def
      NewRejectionRateCurveByClassification_def CurveFN_def
      ClassificationFromContext_def ClassificationToContext_def Background_def)

text \<open>
  Without a \<open>Classifier\<close> the classification is not always empty: a context the caller
  has classified as \<open>HIGH\<close> reaches the rules with that classification.
\<close>

theorem Do_unclassified_counterexample:
  "classifier \<lparr>randFloat = constantRandom (Fin 0), rejectionRates = [],
               rules = [staticRule True], classifier = None\<rparr> = None
   \<and> Do \<lparr>randFloat = constantRandom (Fin 0), rejectionRates = [],
          rules = [staticRule True], classifier = None\<rparr>
        \<lparr>classValue = Some ''HIGH'', other = ()\<rparr> (\<lambda>ctx w. (Returned None, w)) () 0
     = (Returned (Some (Rejection \<lparr>Rule = ''static'', Classification = ''HIGH'', Name = [],
                                   Usage = Fin 0, Likelihood = Fin 0, Rate = Fin 0\<rparr>)), (), 0)
   \<and> ClassificationFromContext \<lparr>classValue = Some ''HIGH'', other = ()\<rparr> \<noteq> []"
  by (simp add: Do_def classify_def Select_def staticRule_def nameStatic_def
      ClassificationFromContext_def)

section \<open>Usage without recorded activity\<close>

text \<open>The options leave the limit and the counter alone.\<close>

lemma fold_Concurrency_fields:
  "current (fold applyOptionConcurrency opts c) = current c
   \<and> cc_limit (fold applyOptionConcurrency opts c) = cc_limit c"
proof (induction opts arbitrary: c)
  case Nil
  show ?case by simp
next
  case (Cons o1 opts)
  show ?case by (cases o1) (simp add: Cons)
qed

lemma fold_LandingRate_limit:
  "lr_limit (fold applyOptionLandingRate opts c) = lr_limit c"
proof (induction opts arbitrary: c)
  case Nil
  show ?case by simp
next
  case (Cons o1 opts)
  show ?case by (cases o1) (simp_all add: Cons)
qed

lemma fold_Latency_limit:
  "lat_limit (fold applyOptionLatency opts c) = lat_limit c"
proof (induction opts arbitrary: c)
  case Nil
  show ?case by simp
next
  case (Cons o1 opts)
  show ?case by (cases o1) (simp_all add: Cons)
qed

text \<open>What a constructor that returns has built.\<close>

lemma NewCapacityErrorRate_built:
  "NewCapacityErrorRate notEnough opts = Inr e \<Longrightarrow>
     invocations e = [] \<and> errors e = [] \<and> errReducer e = Count
     \<and> invocationsPolicy e = \<lparr>numberOfBuckets = er_buckets e, bucketSizeNano = er_bucketDuration e\<rparr>
     \<and> errorsPolicy e = \<lparr>numberOfBuckets = er_buckets e, bucketSizeNano = er_bucketDuration e\<rparr>
     \<and> (attemptReducer e = Count
          \<or> attemptReducer e = MinimumPoints notEnough (er_minimumPoints e) Count
             \<and> 0 < er_minimumPoints e)"
  by (auto simp: NewCapacityErrorRate_def Let_def NewPreallocatedWindow_def
      NewTimePolicyConcurrent_def NewWindow_def split: if_splits)

lemma NewCapacityLandingRate_built:
  "NewCapacityLandingRate limit opts = Inr l \<Longrightarrow>
     lr_invocations l = [] \<and> lr_limit l = limit
     \<and> lr_invocationsPolicy l = \<lparr>numberOfBuckets = lr_buckets l, bucketSizeNano = lr_bucketDuration l\<rparr>"
  by (auto simp: NewCapacityLandingRate_def Let_def NewPreallocatedWindow_def
      NewTimePolicyConcurrent_def NewWindow_def fold_LandingRate_limit split: if_splits)

lemma NewCapacityLatency_built:
  "NewCapacityLatency Avg limit opts = Inr d \<Longrightarrow>
     window d = [] \<and> lat_limit d = limit
     \<and> windowPolicy d = \<lparr>numberOfBuckets = lat_buckets d, bucketSizeNano = lat_bucketDuration d\<rparr>"
  by (auto simp: NewCapacityLatency_def Let_def NewPreallocatedWindow_def
      NewTimePolicyConcurrent_def NewWindow_def fold_Latency_limit split: if_splits)

text \<open>
  C3, as the code has it. A newly built \<open>CapacityConcurrency\<close> has usage 0 when its limit
  is not zero. A newly built \<open>CapacityErrorRate\<close> whose window has at least one bucket and
  a positive bucket duration has usage 0, whatever its other options are. A newly built
  \<open>CapacityLandingRate\<close> or \<open>CapacityLatency\<close> with such a window has usage 0 when its
  limit is not zero (for the latency, when its reduction gives 0 on an empty window): the
  usage is the quotient of zero by the limit.
\<close>

theorem Usage_without_activity:
  "(limit \<noteq> 0 \<longrightarrow> CapacityConcurrency_Usage (NewCapacityConcurrency limit copts) ctx = Fin 0)
   \<and> (NewCapacityErrorRate notEnough eopts = Inr e \<and> 0 < er_buckets e \<and> 0 < er_bucketDuration e \<longrightarrow>
        CapacityErrorRate_Usage e ctx = Inr (Fin 0))
   \<and> (NewCapacityLandingRate llimit lopts = Inr l \<and> 0 < lr_buckets l \<and> 0 < lr_bucketDuration l
        \<and> llimit \<noteq> 0 \<longrightarrow>
        CapacityLandingRate_Usage l ctx = Inr (Fin 0))
   \<and> (NewCapacityLatency Avg dlimit dopts = Inr d \<and> 0 < lat_buckets d \<and> 0 < lat_bucketDuration d
        \<and> dlimit \<noteq> 0 \<and> reduction d [] = 0 \<longrightarrow>
        CapacityLatency_Usage d ctx = Inr (Fin 0))"
proof (intro conjI impI)
  assume "limit \<noteq> 0"
  then show "CapacityConcurrency_Usage (NewCapacityConcurrency limit copts) ctx = Fin 0"
    by (simp add: CapacityConcurrency_Usage_def NewCapacityConcurrency_def
        fold_Concurrency_fields float_of_int_def signed_eq_0_iff)
next
  assume a: "NewCapacityErrorRate notEnough eopts = Inr e \<and> 0 < er_buckets e \<and> 0 < er_bucketDuration e"
  with NewCapacityErrorRate_built [of notEnough eopts e]
  have b: "invocations e = [] \<and> errors e = [] \<and> errReducer e = Count
     \<and> invocationsPolicy e = \<lparr>numberOfBuckets = er_buckets e, bucketSizeNano = er_bucketDuration e\<rparr>
     \<and> errorsPolicy e = \<lparr>numberOfBuckets = er_buckets e, bucketSizeNano = er_bucketDuration e\<rparr>"
    and c: "attemptReducer e = Count
          \<or> attemptReducer e = MinimumPoints notEnough (er_minimumPoints e) Count
             \<and> 0 < er_minimumPoints e"
    by simp_all
  from c show "CapacityErrorRate_Usage e ctx = Inr (Fin 0)"
  proof
    assume "attemptReducer e = Count"
    with a b show ?thesis
      by (simp add: CapacityErrorRate_Usage_def TimePolicy_Reduce_def Reduce_def Count_def)
  next
    assume "attemptReducer e = MinimumPoints notEnough (er_minimumPoints e) Count
             \<and> 0 < er_minimumPoints e"
    with a b show ?thesis
      by (simp add: CapacityErrorRate_Usage_def TimePolicy_Reduce_def Reduce_def Count_def
          MinimumPoints_def float_of_int_def)
  qed
next
  assume a: "NewCapacityLandingRate llimit lopts = Inr l \<and> 0 < lr_buckets l \<and> 0 < lr_bucketDuration l
        \<and> llimit \<noteq> 0"
  with NewCapacityLandingRate_built [of llimit lopts l]
  have "lr_invocations l = [] \<and> lr_limit l = llimit
     \<and> lr_invocationsPolicy l = \<lparr>numberOfBuckets = lr_buckets l, bucketSizeNano = lr_bucketDuration l\<rparr>"
    by simp
  with a show "CapacityLandingRate_Usage l ctx = Inr (Fin 0)"
    by (simp add: CapacityLandingRate_Usage_def TimePolicy_Reduce_def Reduce_def Count_def
        float_of_int_def)
next
  assume a: "NewCapacityLatency Avg dlimit dopts = Inr d \<and> 0 < lat_buckets d \<and> 0 < lat_bucketDuration d
        \<and> dlimit \<noteq> 0 \<and> reduction d [] = 0"
  with NewCapacityLatency_built [of Avg dlimit dopts d]
  have "window d = [] \<and> lat_limit d = dlimit
     \<and> windowPolicy d = \<lparr>numberOfBuckets = lat_buckets d, bucketSizeNano = lat_bucketDuration d\<rparr>"
    by simp
  with a show "CapacityLatency_Usage d ctx = Inr (Fin 0)"
    by (simp add: CapacityLatency_Usage_def TimePolicy_Reduce_def Reduce_def Seconds_def)
qed

theorem Usage_without_activity_witness:
  "CapacityConcurrency_Usage (NewCapacityConcurrency 4 [OptionConcurrencyName ''c'']) Background = Fin 0
   \<and> isl (NewCapacityErrorRate 0 [OptionErrorRateMinimumPoints 5]) = False
   \<and> CapacityErrorRate_Usage (projr (NewCapacityErrorRate 0 [OptionErrorRateMinimumPoints 5]))
        Background = Inr (Fin 0)
   \<and> CapacityLandingRate_Usage
        (projr (NewCapacityLandingRate 4 [OptionLandingRateWindowBuckets 10,
                                          OptionLandingRateBucketDuration Millisecond]))
        Background = Inr (Fin 0)
   \<and> CapacityLatency_Usage
        (projr (NewCapacityLatency (\<lambda>win. if win = [] then 0 else sum_list win div int (length win))
           (2 * Millisecond) [OptionLatencyMeasurePanics True])) Background = Inr (Fin 0)"
  using Usage_without_activity [where limit = 4 and copts = "[OptionConcurrencyName ''c'']"
      and ctx = Background and notEnough = 0 and eopts = "[OptionErrorRateMinimumPoints 5]"
      and e = "projr (NewCapacityErrorRate 0 [OptionErrorRateMinimumPoints 5])"
      and llimit = 4
      and lopts = "[OptionLandingRateWindowBuckets 10, OptionLandingRateBucketDuration Millisecond]"
      and l = "projr (NewCapacityLandingRate 4 [OptionLandingRateWindowBuckets 10,
                                          OptionLandingRateBucketDuration Millisecond])"
      and dlimit = "2 * Millisecond" and dopts = "[OptionLatencyMeasurePanics True]"
      and Avg = "\<lambda>win. if win = [] then 0 else sum_list win div int (length win)"
      and d = "projr (NewCapacityLatency (\<lambda>win. if win = [] then 0 else sum_list win div int (length win))
           (2 * Millisecond) [OptionLatencyMeasurePanics True])"]
  by (simp add: NewCapacityErrorRate_def NewCapacityLandingRate_def NewCapacityLatency_def
      NewPreallocatedWindow_def NewWindow_def Millisecond_def)

text \<open>
  With the limit 0 the quotient is \<open>0 / 0\<close>, which is \<open>NaN\<close> and not 0; with no bucket
  or with a bucket duration of 0 the window panics when it is reduced.
\<close>

theorem Usage_without_activity_counterexample:
  "CapacityConcurrency_Usage (NewCapacityConcurrency 0 []) Background = NaN
   \<and> CapacityLandingRate_Usage (projr (NewCapacityLandingRate 0 [])) Background = Inr NaN
   \<and> isl (NewCapacityErrorRate 0 [OptionErrorRateWindowBuckets 0]) = False
   \<and> CapacityErrorRate_Usage (projr (NewCapacityErrorRate 0 [OptionErrorRateWindowBuckets 0]))
        Background = Inl ''integer divide by zero''
   \<and> CapacityLandingRate_Usage
        (projr (NewCapacityLandingRate 4 [OptionLandingRateBucketDuration 0])) Background
       = Inl ''integer divide by zero''"
  by (simp add: CapacityConcurrency_Usage_def NewCapacityConcurrency_def
      CapacityLandingRate_Usage_def NewCapacityLandingRate_def
      CapacityErrorRate_Usage_def NewCapacityErrorRate_def
      NewPreallocatedWindow_def NewTimePolicyConcurrent_def TimePolicy_Reduce_def
      Reduce_def NewWindow_def Count_def float_of_int_def Millisecond_def)

section \<open>The error-rate wrapper\<close>



section \<open>The throttle\<close>

lemma Time_Sub_below:
  "minDuration < d \<Longrightarrow> t - u < d \<Longrightarrow> Time_Sub t u < d"
  by (simp add: Time_Sub_def)

text \<open>
  C5. When the time since the last refresh is at least the duration, \<open>Usage\<close> calls the
  wrapped capacity, stores and returns its value, and records as the time of the refresh
  the clock read after that call. When it is less, \<open>Usage\<close> returns the cache and leaves
  the throttle and the world as they were, whatever the wrapped capacity is. So a call
  that follows any call within the duration returns the value that call returned,
  whatever the world has become; once the duration has passed it returns the value the
  wrapped capacity has then. For a throttle built by \<open>NewCapacityThrottle\<close> the cache is
  served until the duration has passed since the wrapped call returned, that is for the
  duration and the time the wrapped call took.
\<close>

theorem Throttle_Usage_cache:
  "(duration self \<le> since self w (last self) \<and> Cap_Usage (Capacity self) ctx w = (v, w1) \<longrightarrow>
      CapacityThrottle_Usage Now self ctx w = (v, self\<lparr>cache := v, last := Now w1\<rparr>, w1))
   \<and> (since self w (last self) < duration self \<longrightarrow>
      CapacityThrottle_Usage Now self ctx w = (cache self, self, w)
      \<and> CapacityThrottle_Usage Now (self\<lparr>Capacity := cap2\<rparr>) ctx w
          = (cache self, self\<lparr>Capacity := cap2\<rparr>, w))
   \<and> (CapacityThrottle_Usage Now self ctx w = (u, self', w')
        \<and> since self' w2 (last self') < duration self' \<longrightarrow>
      CapacityThrottle_Usage Now self' ctx2 w2 = (u, self', w2))
   \<and> (CapacityThrottle_Usage Now self ctx w = (u, self', w')
        \<and> duration self' \<le> since self' w3 (last self') \<longrightarrow>
      fst (CapacityThrottle_Usage Now self' ctx3 w3) = fst (Cap_Usage (Capacity self') ctx3 w3))
   \<and> (since self = time_Since Now \<and> duration self \<le> since self w (last self)
        \<and> Cap_Usage (Capacity self) ctx w = (v, w1)
        \<and> minDuration < duration self \<and> Now w4 < Now w1 + duration self \<longrightarrow>
      CapacityThrottle_Usage Now (self\<lparr>cache := v, last := Now w1\<rparr>) ctx4 w4
        = (v, self\<lparr>cache := v, last := Now w1\<rparr>, w4))"
proof (intro conjI impI)
  assume "duration self \<le> since self w (last self) \<and> Cap_Usage (Capacity self) ctx w = (v, w1)"
  then show "CapacityThrottle_Usage Now self ctx w = (v, self\<lparr>cache := v, last := Now w1\<rparr>, w1)"
    by (simp add: CapacityThrottle_Usage_def)
next
  assume a: "since self w (last self) < duration self"
  then show "CapacityThrottle_Usage Now self ctx w = (cache self, self, w)"
    by (simp add: CapacityThrottle_Usage_def)
  from a show "CapacityThrottle_Usage Now (self\<lparr>Capacity := cap2\<rparr>) ctx w
          = (cache self, self\<lparr>Capacity := cap2\<rparr>, w)"
    by (simp add: CapacityThrottle_Usage_def)
next
  assume a: "CapacityThrottle_Usage Now self ctx w = (u, self', w')
        \<and> since self' w2 (last self') < duration self'"
  then have "cache self' = u"
    by (auto simp: CapacityThrottle_Usage_def split: if_splits prod.splits)
  with a show "CapacityThrottle_Usage Now self' ctx2 w2 = (u, self', w2)"
    by (simp add: CapacityThrottle_Usage_def)
next
  assume "CapacityThrottle_Usage Now self ctx w = (u, self', w')
        \<and> duration self' \<le> since self' w3 (last self')"
  then show "fst (CapacityThrottle_Usage Now self' ctx3 w3) = fst (Cap_Usage (Capacity self') ctx3 w3)"
    by (simp add: CapacityThrottle_Usage_def split_beta)
next
  assume a: "since self = time_Since Now \<and> duration self \<le> since self w (last self)
        \<and> Cap_Usage (Capacity self) ctx w = (v, w1)
        \<and> minDuration < duration self \<and> Now w4 < Now w1 + duration self"
  then have "Time_Sub (Now w4) (Now w1) < duration self"
    by (intro Time_Sub_below) simp_all
  with a show "CapacityThrottle_Usage Now (self\<lparr>cache := v, last := Now w1\<rparr>) ctx4 w4
        = (v, self\<lparr>cache := v, last := Now w1\<rparr>, w4)"
    by (simp add: CapacityThrottle_Usage_def time_Since_def)
qed

theorem Throttle_Usage_cache_witness:
  "CapacityThrottle_Usage fst (NewCapacityThrottle fst (meteredCapacity 5) 100) Background (1000, 3)
     = (Fin 3, (NewCapacityThrottle fst (meteredCapacity 5) 100)\<lparr>cache := Fin 3, last := 1005\<rparr>, (1005, 3))
   \<and> CapacityThrottle_Usage fst
        ((NewCapacityThrottle fst (meteredCapacity 5) 100)\<lparr>cache := Fin 3, last := 1005\<rparr>)
        Background (1104, 7)
     = (Fin 3, (NewCapacityThrottle fst (meteredCapacity 5) 100)\<lparr>cache := Fin 3, last := 1005\<rparr>, (1104, 7))
   \<and> fst (CapacityThrottle_Usage fst
        ((NewCapacityThrottle fst (meteredCapacity 5) 100)\<lparr>cache := Fin 3, last := 1005\<rparr>)
        Background (1105, 7)) = Fin 7"
  using
    Throttle_Usage_cache [where Now = fst and self = "NewCapacityThrottle fst (meteredCapacity 5) 100"
      and ctx = Background and w = "(1000, 3)" and v = "Fin 3" and ?w1.0 = "(1005, 3)"
      and u = "Fin 3" and w' = "(1005, 3)"
      and self' = "(NewCapacityThrottle fst (meteredCapacity 5) 100)\<lparr>cache := Fin 3, last := 1005\<rparr>"
      and ?ctx2.0 = Background and ?w2.0 = "(1104, 7)"
      and ?ctx3.0 = Background and ?w3.0 = "(1105, 7)"
      and ?ctx4.0 = Background and ?w4.0 = "(1104, 7)"
      and ?cap2.0 = "meteredCapacity 0"]
    Throttle_Usage_cache [where Now = fst
      and self = "(NewCapacityThrottle fst (meteredCapacity 5) 100)\<lparr>cache := Fin 3, last := 1005\<rparr>"
      and ctx = Background and w = "(1104, 7)" and ?cap2.0 = "meteredCapacity 0"]
  by (simp add: NewCapacityThrottle_def meteredCapacity_def time_Since_def Time_Sub_def
      zeroTime_def minDuration_def maxDuration_def CapacityThrottle_Usage_def)

end
